theory Spec2Isabelle
  imports Main "HOL-Library.Word" "HOL-Library.Sublist"
begin

section \<open>Python values and builtins used by xtraceback.py\<close>

text \<open>
  Python objects, as far as the module looks at them: the values of the keyword bag of
  \<open>XTraceback(etype, value, tb, **options)\<close> and the values of the variables it formats.
  A stream is a file-like object with a \<open>write\<close> method: its identity, whether it has an
  \<open>isatty\<close> attribute and what \<open>isatty()\<close> answers. \<open>PyObject n\<close> is any other object, of a
  type named \<open>n\<close>, with neither \<open>write\<close> nor \<open>isatty\<close>.
\<close>

record stream =
  sid :: nat
  has_isatty :: bool
  isatty :: bool

datatype pyvalue =
    PyNone
  | PyBool bool
  | PyInt int
  | PyStr string
  | PyDict "(pyvalue \<times> pyvalue) list"
  | PyList "pyvalue list"
  | PyTuple "pyvalue list"
  | PySet "pyvalue list"
  | PyFrozenset "pyvalue list"
  | PyStream stream
  | PyObject string

text \<open>Truth value of an object (\<open>bool(value)\<close>, \<open>if value:\<close>).\<close>

fun truthy :: "pyvalue \<Rightarrow> bool" where
  "truthy PyNone = False"
| "truthy (PyBool b) = b"
| "truthy (PyInt i) = (i \<noteq> 0)"
| "truthy (PyStr s) = (s \<noteq> [])"
| "truthy (PyDict kvs) = (kvs \<noteq> [])"
| "truthy (PyList vs) = (vs \<noteq> [])"
| "truthy (PyTuple vs) = (vs \<noteq> [])"
| "truthy (PySet vs) = (vs \<noteq> [])"
| "truthy (PyFrozenset vs) = (vs \<noteq> [])"
| "truthy (PyStream s) = True"
| "truthy (PyObject n) = True"

text \<open>
  \<open>i < v\<close> and \<open>i >= v\<close> for an integer \<open>i\<close> and an arbitrary object \<open>v\<close>. In Python 2 a
  \<open>bool\<close> is the integer 0 or 1, \<open>None\<close> orders before every object and a number orders
  before every other non-numeric object.
\<close>

fun int_lt :: "int \<Rightarrow> pyvalue \<Rightarrow> bool" where
  "int_lt i (PyInt l) = (i < l)"
| "int_lt i (PyBool b) = (i < (if b then 1 else 0))"
| "int_lt i PyNone = False"
| "int_lt i v = True"

definition int_ge :: "int \<Rightarrow> pyvalue \<Rightarrow> bool" where
  "int_ge i v = (\<not> int_lt i v)"

text \<open>\<open>str(n)\<close> for an integer.\<close>

definition digit_char :: "nat \<Rightarrow> char" where
  "digit_char d = ''0123456789'' ! d"

fun str_nat :: "nat \<Rightarrow> string" where
  "str_nat n = (if n < 10 then [digit_char n] else str_nat (n div 10) @ [digit_char (n mod 10)])"

declare str_nat.simps [simp del]

definition str_int :: "int \<Rightarrow> string" where
  "str_int i = (if i < 0 then CHR ''-'' # str_nat (nat (- i)) else str_nat (nat i))"

text \<open>String methods: \<open>sep.join(xs)\<close>, \<open>s[:n]\<close>, \<open>s.lstrip(chars)\<close>, \<open>s.rstrip(chars)\<close>,
  \<open>s.strip()\<close>, \<open>c.isspace()\<close>, \<open>s.splitlines()\<close> and \<open>s.replace(old, new)\<close> of a byte string.\<close>

fun join :: "string \<Rightarrow> string list \<Rightarrow> string" where
  "join sep [] = []"
| "join sep [x] = x"
| "join sep (x # y # ys) = x @ sep @ join sep (y # ys)"

definition slice_to :: "int \<Rightarrow> 'a list \<Rightarrow> 'a list" where
  "slice_to n xs = (if 0 \<le> n then take (nat n) xs else take (length xs - nat (- n)) xs)"

definition lstrip :: "string \<Rightarrow> string \<Rightarrow> string" where
  "lstrip chars s = dropWhile (\<lambda>c. c \<in> set chars) s"

definition rstrip :: "string \<Rightarrow> string \<Rightarrow> string" where
  "rstrip chars s = rev (dropWhile (\<lambda>c. c \<in> set chars) (rev s))"

definition whitespace :: string where
  "whitespace = [CHR '' '', CHR 0x09, CHR 0x0A, CHR 0x0B, CHR 0x0C, CHR 0x0D]"

definition isspace :: "char \<Rightarrow> bool" where
  "isspace c = (c \<in> set whitespace)"

definition strip :: "string \<Rightarrow> string" where
  "strip s = rstrip whitespace (lstrip whitespace s)"

fun splitlines_from :: "string \<Rightarrow> string \<Rightarrow> string list" where
  "splitlines_from cur [] = (if cur = [] then [] else [rev cur])"
| "splitlines_from cur [c] =
     (if c = CHR 0x0A \<or> c = CHR 0x0D then [rev cur] else [rev (c # cur)])"
| "splitlines_from cur (c # d # cs) =
     (if c = CHR 0x0A then rev cur # splitlines_from [] (d # cs)
      else if c = CHR 0x0D
        then (if d = CHR 0x0A then rev cur # splitlines_from [] cs
              else rev cur # splitlines_from [] (d # cs))
      else splitlines_from (c # cur) (d # cs))"

definition splitlines :: "string \<Rightarrow> string list" where
  "splitlines s = splitlines_from [] s"

fun replace_from :: "string \<Rightarrow> string \<Rightarrow> nat \<Rightarrow> string \<Rightarrow> string" where
  "replace_from old new skip [] = []"
| "replace_from old new (Suc k) (c # cs) = replace_from old new k cs"
| "replace_from old new 0 (c # cs) =
     (if prefix old (c # cs) then new @ replace_from old new (length old - 1) cs
      else c # replace_from old new 0 cs)"

definition replace :: "string \<Rightarrow> string \<Rightarrow> string \<Rightarrow> string" where
  "replace old new s =
     (if old = [] then new @ concat (map (\<lambda>c. c # new) s) else replace_from old new 0 s)"

text \<open>
  A keyword bag is a dict with string keys. \<open>d.pop(key, None)\<close> returns the value stored
  under the key, or \<open>None\<close>, and the dict without the key. \<open>repr(d)\<close> lists every item; the
  \<open>repr\<close> of a key and of a value is a parameter.
\<close>

type_synonym bag = "(string \<times> pyvalue) list"

definition pop :: "string \<Rightarrow> bag \<Rightarrow> pyvalue \<times> bag" where
  "pop key d =
     ((case map_of d key of None \<Rightarrow> PyNone | Some v \<Rightarrow> v), filter (\<lambda>kv. fst kv \<noteq> key) d)"

definition repr_dict :: "(pyvalue \<Rightarrow> string) \<Rightarrow> bag \<Rightarrow> string" where
  "repr_dict repr d =
     ''{'' @ join '', '' (map (\<lambda>kv. repr (PyStr (fst kv)) @ '': '' @ repr (snd kv)) d) @ ''}''"

section \<open>Errors\<close>

text \<open>
  The exceptions the module raises itself (\<open>TypeError\<close> for unsupported options,
  \<open>RuntimeError\<close> for printing without a stream), the \<open>AttributeError\<close> of looking up
  \<open>write\<close> on an object that has none, the \<open>IOError\<close> of a failed \<open>fcntl.ioctl\<close>, and an
  exception that \<open>pygments.highlight\<close> lets through.
\<close>

datatype error =
    TypeError string
  | RuntimeError string
  | AttributeError string
  | IOError string
  | HighlightError string

section \<open>XTracebackOptions\<close>

record XTracebackOptions =
  opt_stream :: pyvalue
  opt_color :: pyvalue
  opt_print_width :: pyvalue
  opt_offset :: pyvalue
  opt_limit :: pyvalue
  opt_context :: pyvalue
  opt_globals_module_include :: pyvalue
  show_args :: bool
  show_locals :: bool
  show_globals :: bool
  qualify_methods :: bool
  shorten_filenames :: bool

text \<open>The keys of the class attributes \<open>_options\<close> and \<open>_flags\<close>.\<close>

definition option_keys :: "string list" where
  "option_keys = [''stream'', ''color'', ''print_width'', ''offset'', ''limit'', ''context'',
                  ''globals_module_include'']"

definition flag_keys :: "string list" where
  "flag_keys = [''show_args'', ''show_locals'', ''show_globals'', ''qualify_methods'',
                ''shorten_filenames'']"

text \<open>One round of the first loop of \<open>__init__\<close> (a value option, with its default) and one of
  the second (a flag, coerced with \<open>bool\<close>).\<close>

definition pop_option :: "string \<Rightarrow> pyvalue \<Rightarrow> bag \<Rightarrow> pyvalue \<times> bag" where
  "pop_option key dflt d =
     (let (v, d') = pop key d in ((if v = PyNone then dflt else v), d'))"

definition pop_flag :: "string \<Rightarrow> bool \<Rightarrow> bag \<Rightarrow> bool \<times> bag" where
  "pop_flag key dflt d =
     (let (v, d') = pop key d in ((if v = PyNone then dflt else truthy v), d'))"

definition XTracebackOptions_init :: "(pyvalue \<Rightarrow> string) \<Rightarrow> bag \<Rightarrow> error + XTracebackOptions" where
  "XTracebackOptions_init repr options0 =
     (let (v_stream, d1) = pop_option ''stream'' PyNone options0;
          (v_color, d2) = pop_option ''color'' PyNone d1;
          (v_print_width, d3) = pop_option ''print_width'' PyNone d2;
          (v_offset, d4) = pop_option ''offset'' (PyInt 0) d3;
          (v_limit, d5) = pop_option ''limit'' PyNone d4;
          (v_context, d6) = pop_option ''context'' (PyInt 5) d5;
          (v_globals_module_include, d7) = pop_option ''globals_module_include'' PyNone d6;
          (f_show_args, d8) = pop_flag ''show_args'' True d7;
          (f_show_locals, d9) = pop_flag ''show_locals'' True d8;
          (f_show_globals, d10) = pop_flag ''show_globals'' False d9;
          (f_qualify_methods, d11) = pop_flag ''qualify_methods'' True d10;
          (f_shorten_filenames, d12) = pop_flag ''shorten_filenames'' True d11
      in if d12 \<noteq> []
         then Inl (TypeError (''Unsupported options: '' @ repr_dict repr d12))
         else Inr \<lparr>opt_stream = v_stream, opt_color = v_color, opt_print_width = v_print_width,
                   opt_offset = v_offset, opt_limit = v_limit, opt_context = v_context,
                   opt_globals_module_include = v_globals_module_include,
                   show_args = f_show_args, show_locals = f_show_locals,
                   show_globals = f_show_globals, qualify_methods = f_qualify_methods,
                   shorten_filenames = f_shorten_filenames\<rparr>)"

section \<open>Collecting the traceback frames (XTraceback.__init__)\<close>

text \<open>
  A traceback is the chain \<open>tb, tb.tb_next, ...\<close>, here the list of its entries. Of an entry
  the code reads the frame object and, through \<open>inspect.getframeinfo\<close>, the line number
  \<open>frame_info[1]\<close>.
\<close>

record traceback =
  tb_frame :: nat
  tb_lineno :: int

text \<open>
  \<open>XTracebackFrame\<close> belongs to the module \<open>xtracebackframe\<close>. Of a frame object this
  module reads \<open>exclude\<close> and its \<open>str\<close> only; both are parameters here, the \<open>str\<close> given
  the final \<open>number_padding\<close>. A frame object is built from the traceback entry and its
  index \<open>i\<close>.
\<close>

record XTracebackFrame =
  xf_tb :: traceback
  xf_index :: int

record frame_provider =
  exclude :: "XTracebackFrame \<Rightarrow> bool"
  frame_str :: "nat \<Rightarrow> XTracebackFrame \<Rightarrow> string"

text \<open>
  The state of the loop: \<open>self.tb_frames\<close>, \<open>self.number_padding\<close> and, as a ghost field,
  the frame objects built so far (the frames examined).
\<close>

record walk_state =
  ws_tb_frames :: "XTracebackFrame list"
  ws_number_padding :: nat
  ws_examined :: "XTracebackFrame list"

definition examine :: "frame_provider \<Rightarrow> traceback \<Rightarrow> int \<Rightarrow> walk_state \<Rightarrow> walk_state" where
  "examine P tb i st =
     (let frame = \<lparr>xf_tb = tb, xf_index = i\<rparr>;
          st1 = st\<lparr>ws_examined := ws_examined st @ [frame]\<rparr>
      in if \<not> exclude P frame
         then st1\<lparr>ws_tb_frames := ws_tb_frames st1 @ [frame],
                  ws_number_padding := max (length (str_int (tb_lineno tb))) (ws_number_padding st1)\<rparr>
         else st1)"

fun walk_tb :: "frame_provider \<Rightarrow> XTracebackOptions \<Rightarrow> traceback list \<Rightarrow> int \<Rightarrow> walk_state \<Rightarrow> walk_state" where
  "walk_tb P opts [] i st = st"
| "walk_tb P opts (tb # rest) i st =
     (if opt_limit opts = PyNone \<or> int_lt i (opt_limit opts)
      then walk_tb P opts rest (i + 1)
             (if int_ge i (opt_offset opts) then examine P tb i st else st)
      else st)"

definition collect_frames :: "frame_provider \<Rightarrow> XTracebackOptions \<Rightarrow> traceback list \<Rightarrow> walk_state" where
  "collect_frames P opts tbs =
     walk_tb P opts tbs 0 \<lparr>ws_tb_frames = [], ws_number_padding = 0, ws_examined = []\<rparr>"

section \<open>The XTraceback object and its environment\<close>

text \<open>
  The exception type: whether it is a type object (\<open>isinstance(etype, type)\<close>), its
  \<open>__name__\<close> and its \<open>str\<close>.
\<close>

record exception_type =
  is_type :: bool
  type_name :: string
  type_str :: string

text \<open>
  The exception instance: the result of \<open>str(value)\<close> and of
  \<open>unicode(value).encode("ascii", "backslashreplace")\<close> (\<open>None\<close> when the call raises), the
  name of its type, and for an instance of \<open>SyntaxError\<close> the outcome of unpacking
  \<open>msg, (filename, lineno, offset, badline) = value.args\<close>. The fields of an unpacked record
  are a message, a file name or \<open>None\<close>, an integer line number, an integer offset or \<open>None\<close>
  and a source line or \<open>None\<close>.
\<close>

datatype syntax_error =
    NotSyntaxError
  | ArgsMismatch
  | SyntaxArgs string "string option" int "int option" "string option"

record exception_value =
  ev_str :: "string option"
  ev_unicode :: "string option"
  ev_type_name :: string
  ev_syntax :: syntax_error

text \<open>
  What the module imports and calls: whether \<open>fcntl\<close> and \<open>pygments\<close> could be imported,
  the answer of the \<open>TIOCGWINSZ\<close> ioctl on a stream (four unsigned shorts, or the exception
  that \<open>fcntl.ioctl\<close> raises, as it does on a stream without a terminal behind its file
  descriptor), the message of the
  \<open>ClassNotFound\<close> that \<open>TerminalFormatter()\<close> raises if it does, the outcome of
  \<open>pygments.highlight\<close>, \<open>os.path.realpath\<close>, \<open>os.path.relpath\<close> when \<open>os.path\<close> has it, the
  class attribute \<open>_stdlib_path\<close>, and \<open>pprint.pformat(value, indent=0)\<close>, \<open>None\<close> when it
  raises.
\<close>

datatype highlight_outcome =
    Highlighted string
  | KeyboardInterrupt
  | Raised string

record environment =
  fcntl :: bool
  tiocgwinsz :: "stream \<Rightarrow> error + 16 word \<times> 16 word \<times> 16 word \<times> 16 word"
  pygments :: bool
  class_not_found :: "string option"
  pygments_highlight :: "string \<Rightarrow> highlight_outcome"
  realpath :: "string \<Rightarrow> string"
  relpath :: "(string \<Rightarrow> string) option"
  stdlib_path :: string
  pformat :: "pyvalue \<Rightarrow> string option"

text \<open>
  The attributes of an \<open>XTraceback\<close>. \<open>lexer\<close> and \<open>formatter\<close> say whether \<open>_lexer\<close> and
  \<open>_formatter\<close> have been constructed. (The attribute \<open>seen\<close> is never read in this module.)
\<close>

record XTraceback =
  etype :: exception_type
  exc_value :: "exception_value option"
  options :: XTracebackOptions
  lexer :: bool
  formatter :: bool
  tb_frames :: "XTracebackFrame list"
  number_padding :: nat

definition XTraceback_init ::
  "frame_provider \<Rightarrow> (pyvalue \<Rightarrow> string) \<Rightarrow> exception_type \<Rightarrow> exception_value option \<Rightarrow>
     traceback list \<Rightarrow> bag \<Rightarrow> error + XTraceback" where
  "XTraceback_init P repr et v tb options0 =
     (case XTracebackOptions_init repr options0 of
        Inl e \<Rightarrow> Inl e
      | Inr opts \<Rightarrow>
          (let ws = collect_frames P opts tb
           in Inr \<lparr>etype = et, exc_value = v, options = opts, lexer = False, formatter = False,
                    tb_frames = ws_tb_frames ws, number_padding = ws_number_padding ws\<rparr>))"

subsection \<open>Properties\<close>

definition tty_stream :: "XTraceback \<Rightarrow> bool" where
  "tty_stream x =
     (case opt_stream (options x) of
        PyStream s \<Rightarrow> has_isatty s \<and> isatty s
      | _ \<Rightarrow> False)"

definition color :: "XTraceback \<Rightarrow> bool" where
  "color x =
     (if opt_color (options x) = PyNone then tty_stream x else truthy (opt_color (options x)))"

definition DEFAULT_WIDTH :: int where
  "DEFAULT_WIDTH = 80"

text \<open>
  The property raises what \<open>fcntl.ioctl\<close> raises. (\<open>tty_stream\<close> holds of streams only, so
  the last case of the stream is never taken.)
\<close>

definition print_width :: "environment \<Rightarrow> XTraceback \<Rightarrow> error + int" where
  "print_width env x =
     (if opt_print_width (options x) = PyNone \<and> fcntl env \<and> tty_stream x
      then (case opt_stream (options x) of
              PyStream s \<Rightarrow>
                (case tiocgwinsz env s of
                   Inl e \<Rightarrow> Inl e
                 | Inr (r, c, xp, yp) \<Rightarrow> Inr (uint c))
            | _ \<Rightarrow> Inr DEFAULT_WIDTH)
      else Inr DEFAULT_WIDTH)"

subsection \<open>File names\<close>

definition priv_format_filename :: "environment \<Rightarrow> XTraceback \<Rightarrow> string \<Rightarrow> string" where
  "priv_format_filename env x filename0 =
     (if shorten_filenames (options x)
      then (let filename = realpath env filename0
            in if prefix (stdlib_path env) filename
               then replace (stdlib_path env) ''<stdlib>'' filename
               else (case relpath env of
                       Some rel \<Rightarrow>
                         (let relative = rel filename
                          in if length relative < length filename then relative else filename)
                     | None \<Rightarrow> filename))
      else filename0)"

subsection \<open>Variables\<close>

datatype pytype = T_dict | T_list | T_tuple | T_set | T_frozenset | T_other string

fun type_of :: "pyvalue \<Rightarrow> pytype" where
  "type_of (PyDict kvs) = T_dict"
| "type_of (PyList vs) = T_list"
| "type_of (PyTuple vs) = T_tuple"
| "type_of (PySet vs) = T_set"
| "type_of (PyFrozenset vs) = T_frozenset"
| "type_of PyNone = T_other ''NoneType''"
| "type_of (PyBool b) = T_other ''bool''"
| "type_of (PyInt i) = T_other ''int''"
| "type_of (PyStr s) = T_other ''str''"
| "type_of (PyStream s) = T_other ''file''"
| "type_of (PyObject n) = T_other n"

fun type_name_of :: "pytype \<Rightarrow> string" where
  "type_name_of T_dict = ''dict''"
| "type_name_of T_list = ''list''"
| "type_name_of T_tuple = ''tuple''"
| "type_name_of T_set = ''set''"
| "type_name_of T_frozenset = ''frozenset''"
| "type_name_of (T_other n) = n"

fun REFORMAT :: "pytype \<Rightarrow> (string \<times> string) option" where
  "REFORMAT T_dict = Some (''{'', ''}'')"
| "REFORMAT T_list = Some (''['', '']'')"
| "REFORMAT T_tuple = Some (''('', '')'')"
| "REFORMAT T_set = Some (''set(['', ''])'')"
| "REFORMAT T_frozenset = Some (''frozenset(['', ''])'')"
| "REFORMAT (T_other n) = None"

text \<open>The three steps of \<open>_format_variable\<close>: truncating a long string, printing the value,
  and wrapping a long printed container.\<close>

definition truncate_value :: "int \<Rightarrow> int \<Rightarrow> pyvalue \<Rightarrow> pyvalue" where
  "truncate_value pw base_size v =
     (case v of
        PyStr s \<Rightarrow>
          (if int (length s) > pw * 2
           then PyStr (slice_to (pw - base_size - 2 - 3) s @ ''...'')
           else v)
      | _ \<Rightarrow> v)"

definition pformat_value :: "environment \<Rightarrow> pyvalue \<Rightarrow> string" where
  "pformat_value env v =
     (case pformat env v of
        Some p \<Rightarrow> p
      | None \<Rightarrow> ''<unprintable '' @ type_name_of (type_of v) @ '' object>'')"

definition rewrap :: "int \<Rightarrow> string \<times> string \<Rightarrow> string \<Rightarrow> string" where
  "rewrap indent reformat pvalue =
     (case reformat of (start, fin) \<Rightarrow>
        (let lines = map strip (splitlines (rstrip fin (lstrip start pvalue)));
             sub_indent = CHR 0x0A # replicate (nat (indent + 4)) CHR '' ''
         in start @ sub_indent @ join sub_indent lines @ '','' @ sub_indent @ fin))"

text \<open>
  \<open>_format_variable\<close> reads the property \<open>print_width\<close> on every path (at the latest in the
  comparison with \<open>base_size + len(pvalue)\<close>), outside the \<open>try\<close> around \<open>pformat\<close>: what the
  property raises, the method raises.
\<close>

definition priv_format_variable ::
  "environment \<Rightarrow> XTraceback \<Rightarrow> string \<Rightarrow> pyvalue \<Rightarrow> int \<Rightarrow> string \<Rightarrow> string \<Rightarrow> error + string" where
  "priv_format_variable env x key value0 indent pre separator =
     (case print_width env x of
        Inl e \<Rightarrow> Inl e
      | Inr pw \<Rightarrow>
          (let base_size = indent + int (length pre) + int (length key) + int (length separator);
               v = truncate_value pw base_size value0;
               vtype = type_of v;
               pvalue = pformat_value env v;
               pvalue' = (if base_size + int (length pvalue) > pw
                          then (case REFORMAT vtype of
                                  Some reformat \<Rightarrow> rewrap indent reformat pvalue
                                | None \<Rightarrow> pvalue)
                          else pvalue)
           in Inr (replicate (nat indent) CHR '' '' @ pre @ key @ separator @ pvalue')))"

subsection \<open>Line formatting\<close>

text \<open>
  \<open>run_highlight\<close> is the last \<open>try\<close> block of \<open>_highlight\<close>: a \<open>KeyboardInterrupt\<close> is passed
  over and the string returned as it is, any other exception goes through.
\<close>

text \<open>
  The world outside the object: the warnings issued with \<open>warnings.warn\<close> and what has been
  written to each stream. A method that changes the object or the world returns them with
  its result.
\<close>

record world =
  warnings :: "string list"
  written :: "nat \<Rightarrow> string"

type_synonym 'a outcome = "(error + 'a) \<times> XTraceback \<times> world"

definition warn :: "string \<Rightarrow> world \<Rightarrow> world" where
  "warn msg w = w\<lparr>warnings := warnings w @ [msg]\<rparr>"

definition run_highlight :: "environment \<Rightarrow> string \<Rightarrow> XTraceback \<Rightarrow> world \<Rightarrow> string outcome" where
  "run_highlight env string x w =
     (case pygments_highlight env string of
        Highlighted s \<Rightarrow> (Inr s, x, w)
      | KeyboardInterrupt \<Rightarrow> (Inr string, x, w)
      | Raised e \<Rightarrow> (Inl (HighlightError e), x, w))"

definition priv_highlight :: "environment \<Rightarrow> string \<Rightarrow> XTraceback \<Rightarrow> world \<Rightarrow> string outcome" where
  "priv_highlight env string x w =
     (if \<not> pygments env
      then (Inr string, x, warn ''highlighting not available - pygments is required'' w)
      else
        (let x1 = (if \<not> lexer x then x\<lparr>lexer := True\<rparr> else x)
         in if \<not> formatter x1
            then (case class_not_found env of
                    Some exc \<Rightarrow> (Inr string, x1, warn (''highlighting not available - '' @ exc) w)
                  | None \<Rightarrow> run_highlight env string (x1\<lparr>formatter := True\<rparr>) w)
            else run_highlight env string x1 w))"

fun map_highlight :: "environment \<Rightarrow> string list \<Rightarrow> XTraceback \<Rightarrow> world \<Rightarrow> string list outcome" where
  "map_highlight env [] x w = (Inr [], x, w)"
| "map_highlight env (l # ls) x w =
     (case priv_highlight env l x w of
        (Inl e, x', w') \<Rightarrow> (Inl e, x', w')
      | (Inr s, x', w') \<Rightarrow>
          (case map_highlight env ls x' w' of
             (Inl e, x'', w'') \<Rightarrow> (Inl e, x'', w'')
           | (Inr ss, x'', w'') \<Rightarrow> (Inr (s # ss), x'', w'')))"

definition priv_str_lines :: "environment \<Rightarrow> string list \<Rightarrow> XTraceback \<Rightarrow> world \<Rightarrow> string outcome" where
  "priv_str_lines env lines x w =
     (let exc_str = concat lines
      in if color x then priv_highlight env exc_str x w else (Inr exc_str, x, w))"

definition priv_format_lines ::
  "environment \<Rightarrow> string list \<Rightarrow> XTraceback \<Rightarrow> world \<Rightarrow> string list outcome" where
  "priv_format_lines env lines x w =
     (if color x then map_highlight env lines x w else (Inr lines, x, w))"

text \<open>
  \<open>repr(self)\<close>, which the message of the \<open>RuntimeError\<close> quotes, is a parameter. In
  \<open>self.options.stream.write(self._str_lines(lines))\<close> the attribute \<open>write\<close> is looked up
  before the argument is evaluated: on an object without \<open>write\<close> the \<open>AttributeError\<close> comes
  first, and \<open>_str_lines\<close> does not run.
\<close>

definition priv_print_lines ::
  "environment \<Rightarrow> string \<Rightarrow> string list \<Rightarrow> XTraceback \<Rightarrow> world \<Rightarrow> unit outcome" where
  "priv_print_lines env self_repr lines x w =
     (if opt_stream (options x) = PyNone
      then (Inl (RuntimeError (''Cannot print - '' @ self_repr @ '' has None stream'')), x, w)
      else
        (case opt_stream (options x) of
           PyStream s \<Rightarrow>
             (case priv_str_lines env lines x w of
                (Inl e, x', w') \<Rightarrow> (Inl e, x', w')
              | (Inr text, x', w') \<Rightarrow>
                  (Inr (), x', w'\<lparr>written := (written w')(sid s := written w' (sid s) @ text)\<rparr>))
         | _ \<Rightarrow> (Inl (AttributeError ''write''), x, w)))"

subsection \<open>Traceback format\<close>

definition priv_format_tb :: "frame_provider \<Rightarrow> XTraceback \<Rightarrow> string list" where
  "priv_format_tb P x = map (\<lambda>frame. frame_str P (number_padding x) frame @ [CHR 0x0A]) (tb_frames x)"

definition value_str_of :: "exception_value option \<Rightarrow> string" where
  "value_str_of v =
     (case v of
        None \<Rightarrow> ''None''
      | Some ev \<Rightarrow>
          (case ev_str ev of
             Some s \<Rightarrow> s
           | None \<Rightarrow>
               (case ev_unicode ev of
                  Some s \<Rightarrow> s
                | None \<Rightarrow> ''<unprintable '' @ ev_type_name ev @ '' object>'')))"

definition caret_line :: "string \<Rightarrow> int \<Rightarrow> string" where
  "caret_line badline offset =
     (let caretspace = lstrip whitespace (slice_to offset (rstrip [CHR 0x0A] badline))
      in ''   '' @ map (\<lambda>c. if isspace c then c else CHR '' '') caretspace @ ''^'' @ [CHR 0x0A])"

definition priv_format_exception_only :: "environment \<Rightarrow> XTraceback \<Rightarrow> string list" where
  "priv_format_exception_only env x =
     (let value_str = value_str_of (exc_value x);
          (lines, value_str') =
            (case exc_value x of
               None \<Rightarrow> ([], value_str)
             | Some ev \<Rightarrow>
                 (case ev_syntax ev of
                    NotSyntaxError \<Rightarrow> ([], value_str)
                  | ArgsMismatch \<Rightarrow> ([], value_str)
                  | SyntaxArgs msg filename lineno offset badline \<Rightarrow>
                      (let formatted =
                             (case filename of
                                None \<Rightarrow> []
                              | Some f \<Rightarrow> if f = [] then [] else priv_format_filename env x f);
                           filename' = (if formatted = [] then ''<string>'' else formatted);
                           l1 = [''  File '' @ [CHR 0x22] @ filename' @ [CHR 0x22] @ '', line '' @ str_int lineno
                                 @ [CHR 0x0A]]
                       in case badline of
                            None \<Rightarrow> (l1, value_str)
                          | Some b \<Rightarrow>
                              (let l2 = l1 @ [''    '' @ strip b @ [CHR 0x0A]];
                                   l3 = (case offset of
                                           None \<Rightarrow> l2
                                         | Some off \<Rightarrow> l2 @ [caret_line b off])
                               in (l3, msg)))));
          name = (if is_type (etype x) \<and> type_name (etype x) \<noteq> []
                  then type_name (etype x) else type_str (etype x));
          exc_line = (if exc_value x \<noteq> None \<and> value_str' \<noteq> []
                      then name @ '': '' @ value_str' else name)
      in lines @ [exc_line @ [CHR 0x0A]])"

definition header_line :: string where
  "header_line = ''Traceback (most recent call last):''"

definition header :: string where
  "header = header_line @ [CHR 0x0A]"

definition priv_format_exception :: "frame_provider \<Rightarrow> environment \<Rightarrow> XTraceback \<Rightarrow> string list" where
  "priv_format_exception P env x =
     (let lines = priv_format_tb P x;
          lines' = (if lines \<noteq> [] then header # lines else lines)
      in lines' @ priv_format_exception_only env x)"

subsection \<open>Interface\<close>

definition format_tb ::
  "frame_provider \<Rightarrow> environment \<Rightarrow> XTraceback \<Rightarrow> world \<Rightarrow> string list outcome" where
  "format_tb P env x w = priv_format_lines env (priv_format_tb P x) x w"

definition format_exception_only ::
  "environment \<Rightarrow> XTraceback \<Rightarrow> world \<Rightarrow> string list outcome" where
  "format_exception_only env x w = priv_format_lines env (priv_format_exception_only env x) x w"

definition format_exception ::
  "frame_provider \<Rightarrow> environment \<Rightarrow> XTraceback \<Rightarrow> world \<Rightarrow> string list outcome" where
  "format_exception P env x w = priv_format_lines env (priv_format_exception P env x) x w"

definition print_tb ::
  "frame_provider \<Rightarrow> environment \<Rightarrow> string \<Rightarrow> XTraceback \<Rightarrow> world \<Rightarrow> unit outcome" where
  "print_tb P env self_repr x w = priv_print_lines env self_repr (priv_format_tb P x) x w"

definition print_exception ::
  "frame_provider \<Rightarrow> environment \<Rightarrow> string \<Rightarrow> XTraceback \<Rightarrow> world \<Rightarrow> unit outcome" where
  "print_exception P env self_repr x w =
     priv_print_lines env self_repr (priv_format_exception P env x) x w"

definition str_XTraceback ::
  "frame_provider \<Rightarrow> environment \<Rightarrow> XTraceback \<Rightarrow> world \<Rightarrow> string outcome" where
  "str_XTraceback P env x w = priv_str_lines env (priv_format_exception P env x) x w"

section \<open>Invariants\<close>

text \<open>
  The invariant of the loop of \<open>__init__\<close>: the frames kept are the examined frames that the
  Frame Provider does not exclude, and the padding is the widest \<open>str(lineno)\<close> among the
  frames kept, 0 when there is none.
\<close>

definition included_inv :: "frame_provider \<Rightarrow> walk_state \<Rightarrow> bool" where
  "included_inv P st \<longleftrightarrow>
     ws_tb_frames st = filter (\<lambda>f. \<not> exclude P f) (ws_examined st) \<and>
     ws_number_padding st =
       Max (insert 0 ((\<lambda>f. length (str_int (tb_lineno (xf_tb f)))) ` set (ws_tb_frames st)))"

text \<open>The items of a keyword bag whose key is neither a value option nor a flag.\<close>

definition unsupported :: "bag \<Rightarrow> bag" where
  "unsupported d = filter (\<lambda>kv. fst kv \<notin> set (option_keys @ flag_keys)) d"

text \<open>The same object with another value of the \<open>color\<close> option.\<close>

definition set_color :: "pyvalue \<Rightarrow> XTraceback \<Rightarrow> XTraceback" where
  "set_color c x = x\<lparr>options := (options x)\<lparr>opt_color := c\<rparr>\<rparr>"


text \<open>Every string of the list ends with a line break.\<close>

definition newline_ended :: "string list \<Rightarrow> bool" where
  "newline_ended xs = list_all (\<lambda>x. x \<noteq> [] \<and> last x = CHR 0x0A) xs"

section \<open>Example objects\<close>

text \<open>
  Concrete objects on which the theorems below are instantiated: the options of an empty
  keyword bag, a \<open>repr\<close>, a Frame Provider that excludes the frames of frame object 0 and
  prints a frame as its padded line number, and a traceback of five entries.
\<close>

definition default_options :: XTracebackOptions where
  "default_options =
     \<lparr>opt_stream = PyNone, opt_color = PyNone, opt_print_width = PyNone, opt_offset = PyInt 0,
      opt_limit = PyNone, opt_context = PyInt 5, opt_globals_module_include = PyNone,
      show_args = True, show_locals = True, show_globals = False, qualify_methods = True,
      shorten_filenames = True\<rparr>"

fun example_repr :: "pyvalue \<Rightarrow> string" where
  "example_repr (PyStr s) = [CHR 0x27] @ s @ [CHR 0x27]"
| "example_repr (PyInt i) = str_int i"
| "example_repr PyNone = ''None''"
| "example_repr (PyBool b) = (if b then ''True'' else ''False'')"
| "example_repr v = ''<object>''"

definition example_provider :: frame_provider where
  "example_provider =
     \<lparr>exclude = (\<lambda>f. tb_frame (xf_tb f) = 0),
      frame_str = (\<lambda>n f. ''  line '' @ replicate (n - length (str_int (tb_lineno (xf_tb f)))) CHR '' ''
                            @ str_int (tb_lineno (xf_tb f)))\<rparr>"

definition example_tb :: "traceback list" where
  "example_tb =
     [\<lparr>tb_frame = 1, tb_lineno = 7\<rparr>, \<lparr>tb_frame = 0, tb_lineno = 1234\<rparr>,
      \<lparr>tb_frame = 2, tb_lineno = 42\<rparr>, \<lparr>tb_frame = 3, tb_lineno = 5\<rparr>,
      \<lparr>tb_frame = 0, tb_lineno = 100000\<rparr>]"

definition example_etype :: exception_type where
  "example_etype = \<lparr>is_type = True, type_name = ''ValueError'', type_str = ''<type ValueError>''\<rparr>"

definition example_xtb :: XTraceback where
  "example_xtb =
     \<lparr>etype = example_etype, exc_value = None, options = default_options, lexer = False,
      formatter = False,
      tb_frames = [\<lparr>xf_tb = \<lparr>tb_frame = 1, tb_lineno = 7\<rparr>, xf_index = 0\<rparr>,
                   \<lparr>xf_tb = \<lparr>tb_frame = 2, tb_lineno = 42\<rparr>, xf_index = 2\<rparr>,
                   \<lparr>xf_tb = \<lparr>tb_frame = 3, tb_lineno = 5\<rparr>, xf_index = 3\<rparr>],
      number_padding = 2\<rparr>"

text \<open>
  A filesystem without symbolic links, seen from the working directory \<open>cwd\<close> (an absolute
  path): \<open>os.path.realpath\<close> joins a relative path to \<open>cwd\<close> and normalizes the components
  (\<open>.\<close> is dropped, \<open>..\<close> removes the component before it); \<open>os.path.relpath\<close> of an
  absolute path climbs out of the components of \<open>cwd\<close> that the path does not share and
  descends along the rest of the path.
\<close>

fun split_path_from :: "string \<Rightarrow> string \<Rightarrow> string list" where
  "split_path_from cur [] = (if cur = [] then [] else [rev cur])"
| "split_path_from cur (c # cs) =
     (if c = CHR ''/''
      then (if cur = [] then split_path_from [] cs else rev cur # split_path_from [] cs)
      else split_path_from (c # cur) cs)"

fun norm_components :: "string list \<Rightarrow> string list \<Rightarrow> string list" where
  "norm_components acc [] = rev acc"
| "norm_components acc (c # cs) =
     (if c = ''.'' then norm_components acc cs
      else if c = ''..'' then norm_components (case acc of [] \<Rightarrow> [] | a # as \<Rightarrow> as) cs
      else norm_components (c # acc) cs)"

definition posix_realpath :: "string \<Rightarrow> string \<Rightarrow> string" where
  "posix_realpath cwd p =
     ''/'' @ join ''/'' (norm_components []
              (split_path_from [] (if take 1 p = ''/'' then p else cwd @ ''/'' @ p)))"

fun strip_common :: "string list \<Rightarrow> string list \<Rightarrow> string list \<times> string list" where
  "strip_common (x # xs) (y # ys) = (if x = y then strip_common xs ys else (x # xs, y # ys))"
| "strip_common xs ys = (xs, ys)"

definition posix_relpath :: "string \<Rightarrow> string \<Rightarrow> string" where
  "posix_relpath cwd p =
     (case strip_common (split_path_from [] cwd) (split_path_from [] p) of
        (up, down) \<Rightarrow>
          (let rel = replicate (length up) ''..'' @ down
           in if rel = [] then ''.'' else join ''/'' rel))"

text \<open>
  A \<open>pformat\<close>: a list or a tuple on one line when that line has at most 80 characters and
  one item per line otherwise, and an object of a type named \<open>Broken\<close> raises.
\<close>

definition example_sequence :: "string \<Rightarrow> string \<Rightarrow> pyvalue list \<Rightarrow> string" where
  "example_sequence start fin vs =
     (let one = start @ join '', '' (map example_repr vs) @ fin
      in if length one \<le> 80 then one
         else start @ join ('','' @ [CHR 0x0A]) (map example_repr vs) @ fin)"

fun example_pformat :: "pyvalue \<Rightarrow> string option" where
  "example_pformat (PyList vs) = Some (example_sequence ''['' '']'' vs)"
| "example_pformat (PyTuple vs) = Some (example_sequence ''('' '')'' vs)"
| "example_pformat (PyObject n) = (if n = ''Broken'' then None else Some ''<object>'')"
| "example_pformat v = Some (example_repr v)"

definition example_env :: environment where
  "example_env =
     \<lparr>fcntl = True,
      tiocgwinsz = (\<lambda>s. Inr (24, 100, 0, 0)),
      pygments = False,
      class_not_found = None,
      pygments_highlight = (\<lambda>s. Highlighted (''<hl>'' @ s)),
      realpath = posix_realpath ''/home/user/project'',
      relpath = Some (posix_relpath ''/home/user/project''),
      stdlib_path = ''/usr/lib/python2.7'',
      pformat = example_pformat\<rparr>"

text \<open>The same environment, run from a working directory under the standard library.\<close>

definition site_packages_env :: environment where
  "site_packages_env =
     example_env\<lparr>realpath := posix_realpath ''/usr/lib/python2.7/site-packages'',
                  relpath := Some (posix_relpath ''/usr/lib/python2.7/site-packages'')\<rparr>"

text \<open>
  An exception without frames whose message quotes another traceback, as the exception of a
  failed worker process does.
\<close>

definition remote_error_xtb :: XTraceback where
  "remote_error_xtb =
     example_xtb\<lparr>tb_frames := [], number_padding := 0,
       exc_value := Some \<lparr>ev_str = Some (''worker failed'' @ [CHR 0x0A] @ header_line),
                           ev_unicode = None, ev_type_name = ''ValueError'',
                           ev_syntax = NotSyntaxError\<rparr>\<rparr>"

text \<open>The example object without its frames, and with the message of the failed worker.\<close>

definition frameless_xtb :: XTraceback where
  "frameless_xtb = example_xtb\<lparr>tb_frames := [], number_padding := 0\<rparr>"

definition quoting_xtb :: XTraceback where
  "quoting_xtb = example_xtb\<lparr>exc_value := exc_value remote_error_xtb\<rparr>"

definition example_world :: world where
  "example_world = \<lparr>warnings = [], written = (\<lambda>n. [])\<rparr>"

definition example_stream :: stream where
  "example_stream = \<lparr>sid = 2, has_isatty = True, isatty = False\<rparr>"

section \<open>The frames examined\<close>

lemma examine_examined:
  "ws_examined (examine P tb i st) = ws_examined st @ [\<lparr>xf_tb = tb, xf_index = i\<rparr>]"
  by (simp add: examine_def Let_def)

lemma walk_tb_examined:
  assumes "opt_offset opts = PyInt off" and "opt_limit opts = PyInt lim"
  shows "map xf_tb (ws_examined (walk_tb P opts tbs i st)) =
           map xf_tb (ws_examined st) @ drop (nat (off - i)) (take (nat (lim - i)) tbs)"
proof (induction tbs arbitrary: i st)
  case Nil
  then show ?case by simp
next
  case (Cons tb rest)
  show ?case
  proof (cases "i < lim")
    case False
    then show ?thesis using assms by simp
  next
    case True
    then have "nat (lim - i) = Suc (nat (lim - (i + 1)))" by simp
    then have tk: "take (nat (lim - i)) (tb # rest) = tb # take (nat (lim - (i + 1))) rest"
      by simp
    show ?thesis
    proof (cases "off \<le> i")
      case True
      then show ?thesis using \<open>i < lim\<close> assms Cons.IH tk
        by (simp add: int_ge_def examine_examined)
    next
      case False
      then have "nat (off - i) = Suc (nat (off - (i + 1)))" by simp
      then show ?thesis using False \<open>i < lim\<close> assms Cons.IH tk
        by (simp add: int_ge_def)
    qed
  qed
qed

text \<open>With no limit configured the loop runs to the end of the chain.\<close>

lemma walk_tb_examined_nolimit:
  assumes "opt_offset opts = PyInt off" and "opt_limit opts = PyNone"
  shows "map xf_tb (ws_examined (walk_tb P opts tbs i st)) =
           map xf_tb (ws_examined st) @ drop (nat (off - i)) tbs"
proof (induction tbs arbitrary: i st)
  case Nil
  then show ?case by simp
next
  case (Cons tb rest)
  show ?case
  proof (cases "off \<le> i")
    case True
    then show ?thesis using assms Cons.IH
      by (simp add: int_ge_def examine_examined)
  next
    case False
    then have "nat (off - i) = Suc (nat (off - (i + 1)))" by simp
    then show ?thesis using False assms Cons.IH
      by (simp add: int_ge_def)
  qed
qed

lemma unlimited_examined:
  assumes "opt_offset opts = PyInt off" and "opt_limit opts = PyNone"
  shows "map xf_tb (ws_examined (collect_frames P opts tbs)) = drop (nat off) tbs"
  using walk_tb_examined_nolimit [OF assms, of P tbs 0] by (simp add: collect_frames_def)

text \<open>
  C1, as the code has it. With offset \<open>off\<close> and limit \<open>lim\<close> the frames examined are the raw
  frames at the indices \<open>i\<close> with \<open>off \<le> i < lim\<close>: the first \<open>off\<close> frames are skipped and
  the loop stops when the index of the raw frame reaches \<open>lim\<close>, so the skipped frames count
  toward the limit. Of \<open>L\<close> raw frames, \<open>min lim L - off\<close> are examined (0 when that is
  negative).
\<close>

theorem examined_frames:
  assumes "opt_offset opts = PyInt off" and "opt_limit opts = PyInt lim"
  shows "map xf_tb (ws_examined (collect_frames P opts tbs)) = drop (nat off) (take (nat lim) tbs)
         \<and> length (ws_examined (collect_frames P opts tbs)) = min (nat lim) (length tbs) - nat off"
proof -
  have m: "map xf_tb (ws_examined (collect_frames P opts tbs)) = drop (nat off) (take (nat lim) tbs)"
    using walk_tb_examined [OF assms, of P tbs 0] by (simp add: collect_frames_def)
  have "length (ws_examined (collect_frames P opts tbs)) =
          length (map xf_tb (ws_examined (collect_frames P opts tbs)))"
    by simp
  also have "\<dots> = min (nat lim) (length tbs) - nat off"
    unfolding m by (simp add: min.commute)
  finally show ?thesis using m by simp
qed

theorem examined_frames_witness:
  "map xf_tb (ws_examined (collect_frames example_provider
      (default_options\<lparr>opt_offset := PyInt 1, opt_limit := PyInt 3\<rparr>) example_tb)) =
     [\<lparr>tb_frame = 0, tb_lineno = 1234\<rparr>, \<lparr>tb_frame = 2, tb_lineno = 42\<rparr>]
   \<and> length (ws_examined (collect_frames example_provider
      (default_options\<lparr>opt_offset := PyInt 1, opt_limit := PyInt 3\<rparr>) example_tb)) = 2"
  using examined_frames [of "default_options\<lparr>opt_offset := PyInt 1, opt_limit := PyInt 3\<rparr>" 1 3
                            example_provider example_tb]
  by (simp add: default_options_def example_tb_def)

text \<open>
  C1 as the specification states it fails: of five raw frames, with offset 2 and limit 2,
  \<open>min 2 (5 - 2) = 2\<close> frames should be examined, and the loop, which stops at index 2,
  examines none.
\<close>

theorem examined_frames_counterexample:
  "length (ws_examined (collect_frames example_provider
      (default_options\<lparr>opt_offset := PyInt 2, opt_limit := PyInt 2\<rparr>) example_tb))
   \<noteq> min 2 (length example_tb - 2)"
  by (simp add: collect_frames_def default_options_def example_tb_def int_ge_def example_provider_def
        examine_def Let_def)

section \<open>Excluded frames\<close>

lemma Max_insert0:
  assumes "finite S"
  shows "Max (insert (0::nat) (insert w S)) = max w (Max (insert 0 S))"
proof -
  have "Max (insert w (insert 0 S)) = max w (Max (insert 0 S))"
    using assms by (intro Max_insert) auto
  then show ?thesis by (simp only: insert_commute)
qed

lemma examine_inv:
  assumes "included_inv P st"
  shows "included_inv P (examine P tb i st)"
proof (cases "exclude P \<lparr>xf_tb = tb, xf_index = i\<rparr>")
  case True
  then show ?thesis using assms by (simp add: included_inv_def examine_def Let_def)
next
  case False
  let ?w = "\<lambda>f. length (str_int (tb_lineno (xf_tb f)))"
  let ?f = "\<lparr>xf_tb = tb, xf_index = i\<rparr>"
  have fr: "ws_tb_frames (examine P tb i st) = ws_tb_frames st @ [?f]"
    and ex: "ws_examined (examine P tb i st) = ws_examined st @ [?f]"
    and pd: "ws_number_padding (examine P tb i st) = max (?w ?f) (ws_number_padding st)"
    using False by (simp_all add: examine_def Let_def)
  have "?w ` set (ws_tb_frames st @ [?f]) = insert (?w ?f) (?w ` set (ws_tb_frames st))"
    by simp
  then have "Max (insert 0 (?w ` set (ws_tb_frames (examine P tb i st)))) =
             max (?w ?f) (Max (insert 0 (?w ` set (ws_tb_frames st))))"
    by (simp only: fr Max_insert0 [OF finite_imageI [OF finite_set]])
  then show ?thesis using assms False unfolding included_inv_def fr ex pd by simp
qed

lemma walk_tb_inv: "included_inv P st \<Longrightarrow> included_inv P (walk_tb P opts tbs i st)"
  by (induction tbs arbitrary: i st) (auto simp: examine_inv)

lemma collect_frames_inv: "included_inv P (collect_frames P opts tbs)"
  unfolding collect_frames_def by (rule walk_tb_inv) (simp add: included_inv_def)

text \<open>
  C5. In a constructed \<open>XTraceback\<close> the frames kept are the examined frames that the Frame
  Provider does not exclude, the lines of \<open>_format_tb\<close> are the renderings of exactly these
  frames, and the padding width is the largest width of \<open>str(lineno)\<close> over the frames kept,
  0 when no frame is kept: an excluded frame adds no line and does not widen the padding.
\<close>

theorem excluded_frames_dropped:
  assumes "XTraceback_init P repr et v tbs bag = Inr x"
  shows "tb_frames x = filter (\<lambda>f. \<not> exclude P f) (ws_examined (collect_frames P (options x) tbs))
       \<and> number_padding x =
           Max (insert 0 ((\<lambda>f. length (str_int (tb_lineno (xf_tb f)))) ` set (tb_frames x)))
       \<and> priv_format_tb P x =
           map (\<lambda>f. frame_str P (number_padding x) f @ [CHR 0x0A])
             (filter (\<lambda>f. \<not> exclude P f) (ws_examined (collect_frames P (options x) tbs)))"
proof -
  from assms obtain opts where
    x: "x = \<lparr>etype = et, exc_value = v, options = opts, lexer = False, formatter = False,
             tb_frames = ws_tb_frames (collect_frames P opts tbs),
             number_padding = ws_number_padding (collect_frames P opts tbs)\<rparr>"
    by (auto simp: XTraceback_init_def Let_def split: sum.splits)
  have inv: "included_inv P (collect_frames P opts tbs)" by (rule collect_frames_inv)
  have 1: "tb_frames x = filter (\<lambda>f. \<not> exclude P f) (ws_examined (collect_frames P (options x) tbs))"
    using inv by (simp add: x included_inv_def)
  have 2: "number_padding x =
           Max (insert 0 ((\<lambda>f. length (str_int (tb_lineno (xf_tb f)))) ` set (tb_frames x)))"
    using inv by (simp add: x included_inv_def)
  have 3: "priv_format_tb P x = map (\<lambda>f. frame_str P (number_padding x) f @ [CHR 0x0A]) (tb_frames x)"
    by (simp add: priv_format_tb_def)
  show ?thesis using 1 2 3 by simp
qed

lemma pop_option_Nil: "pop_option k d [] = (d, [])"
  by (simp add: pop_option_def pop_def)

lemma pop_flag_Nil: "pop_flag k d [] = (d, [])"
  by (simp add: pop_flag_def pop_def)

lemma init_empty: "XTracebackOptions_init repr [] = Inr default_options"
  by (simp add: XTracebackOptions_init_def pop_option_Nil pop_flag_Nil default_options_def)

lemma str_int_examples: "str_int 7 = ''7''" "str_int 42 = ''42''" "str_int 5 = ''5''"
  by (simp_all add: str_int_def str_nat.simps digit_char_def)

lemma example_collect:
  "collect_frames example_provider default_options example_tb =
     \<lparr>ws_tb_frames = tb_frames example_xtb, ws_number_padding = 2,
      ws_examined =
        [\<lparr>xf_tb = \<lparr>tb_frame = 1, tb_lineno = 7\<rparr>, xf_index = 0\<rparr>,
         \<lparr>xf_tb = \<lparr>tb_frame = 0, tb_lineno = 1234\<rparr>, xf_index = 1\<rparr>,
         \<lparr>xf_tb = \<lparr>tb_frame = 2, tb_lineno = 42\<rparr>, xf_index = 2\<rparr>,
         \<lparr>xf_tb = \<lparr>tb_frame = 3, tb_lineno = 5\<rparr>, xf_index = 3\<rparr>,
         \<lparr>xf_tb = \<lparr>tb_frame = 0, tb_lineno = 100000\<rparr>, xf_index = 4\<rparr>]\<rparr>"
  by (simp add: collect_frames_def default_options_def example_tb_def
        example_provider_def int_ge_def examine_def Let_def str_int_examples example_xtb_def)

lemma example_init:
  "XTraceback_init example_provider example_repr example_etype None example_tb [] = Inr example_xtb"
  by (simp add: XTraceback_init_def init_empty example_collect) (simp add: example_xtb_def)

theorem excluded_frames_dropped_witness:
  "XTraceback_init example_provider example_repr example_etype None example_tb [] = Inr example_xtb
   \<and> number_padding example_xtb = 2
   \<and> priv_format_tb example_provider example_xtb =
       [''  line  7'' @ [CHR 0x0A], ''  line 42'' @ [CHR 0x0A], ''  line  5'' @ [CHR 0x0A]]"
proof -
  have "priv_format_tb example_provider example_xtb =
     map (\<lambda>f. frame_str example_provider (number_padding example_xtb) f @ [CHR 0x0A])
       (filter (\<lambda>f. \<not> exclude example_provider f)
          (ws_examined (collect_frames example_provider (options example_xtb) example_tb)))"
    using excluded_frames_dropped [OF example_init] by simp
  also have "options example_xtb = default_options" by (simp add: example_xtb_def)
  finally have "priv_format_tb example_provider example_xtb =
       [''  line  7'' @ [CHR 0x0A], ''  line 42'' @ [CHR 0x0A], ''  line  5'' @ [CHR 0x0A]]"
    unfolding example_collect
    by (simp add: example_provider_def str_int_examples example_xtb_def)
  then show ?thesis using example_init by (simp add: example_xtb_def)
qed

section \<open>Unsupported options\<close>

lemma snd_pop_option: "snd (pop_option key dflt d) = filter (\<lambda>kv. fst kv \<notin> set [key]) d"
  by (simp add: pop_option_def pop_def)

lemma snd_pop_flag: "snd (pop_flag key dflt d) = filter (\<lambda>kv. fst kv \<notin> set [key]) d"
  by (simp add: pop_flag_def pop_def)

lemma filter_keys_merge:
  "filter (\<lambda>kv. fst kv \<notin> set [k]) (filter (\<lambda>kv. fst kv \<notin> set ks) d) =
   filter (\<lambda>kv. fst kv \<notin> set (ks @ [k])) d"
  by (induction d) auto

lemma keys_append:
  "[''stream''] @ [''color''] @ [''print_width''] @ [''offset''] @ [''limit''] @ [''context''] @
   [''globals_module_include''] @ [''show_args''] @ [''show_locals''] @ [''show_globals''] @
   [''qualify_methods''] @ [''shorten_filenames''] = option_keys @ flag_keys"
  unfolding option_keys_def flag_keys_def by (simp only: append.simps)

lemma unsupported_alt:
  "filter (\<lambda>kv. fst kv \<notin> set (((((((((((
      [''stream''] @ [''color'']) @ [''print_width'']) @ [''offset'']) @ [''limit'']) @ [''context'']) @
      [''globals_module_include'']) @ [''show_args'']) @ [''show_locals'']) @ [''show_globals'']) @
      [''qualify_methods'']) @ [''shorten_filenames''])) d = unsupported d"
  unfolding unsupported_def append_assoc keys_append by (rule refl)

lemma if_Inr_ex: "\<not> C \<Longrightarrow> \<exists>opts. (if C then A else Inr R) = Inr opts"
  by simp

lemma init_unsupported:
  assumes "unsupported d \<noteq> []"
  shows "XTracebackOptions_init repr d =
           Inl (TypeError (''Unsupported options: '' @ repr_dict repr (unsupported d)))"
  using assms
  unfolding XTracebackOptions_init_def Let_def split_beta
  unfolding snd_pop_option snd_pop_flag filter_keys_merge unsupported_alt
  by (rule if_P)

lemma init_supported:
  assumes "unsupported d = []"
  shows "\<exists>opts. XTracebackOptions_init repr d = Inr opts"
proof -
  have n: "\<not> unsupported d \<noteq> []" using assms by simp
  show ?thesis
    unfolding XTracebackOptions_init_def Let_def split_beta
    unfolding snd_pop_option snd_pop_flag filter_keys_merge unsupported_alt
    by (rule if_Inr_ex [OF n])
qed


lemma sublist_join:
  assumes "x \<in> set xs"
  shows "sublist x (join sep xs)"
  using assms
proof (induction sep xs rule: join.induct)
  case (1 sep)
  then show ?case by simp
next
  case (2 sep y)
  then show ?case by simp
next
  case (3 sep y z zs)
  show ?case
  proof (cases "x = y")
    case True
    have "join sep (y # z # zs) = [] @ y @ (sep @ join sep (z # zs))" by simp
    then show ?thesis unfolding True sublist_def by blast
  next
    case False
    with 3 have "sublist x (join sep (z # zs))" by simp
    then obtain ps ss where "join sep (z # zs) = ps @ x @ ss" unfolding sublist_def by blast
    then have "join sep (y # z # zs) = (y @ sep @ ps) @ x @ ss" by simp
    then show ?thesis unfolding sublist_def by blast
  qed
qed

lemma sublist_repr_dict:
  assumes "kv \<in> set d"
  shows "sublist (repr (PyStr (fst kv))) (repr_dict repr d)"
proof -
  let ?f = "\<lambda>kv. repr (PyStr (fst kv)) @ '': '' @ repr (snd kv)"
  have "sublist (?f kv) (join '', '' (map ?f d))"
    using assms by (intro sublist_join) simp
  then obtain ps ss where "join '', '' (map ?f d) = ps @ ?f kv @ ss"
    unfolding sublist_def by blast
  then have "repr_dict repr d = (''{'' @ ps) @ repr (PyStr (fst kv)) @ ('': '' @ repr (snd kv) @ ss @ ''}'')"
    unfolding repr_dict_def by simp
  then show ?thesis unfolding sublist_def by blast
qed

text \<open>
  C3. If the keyword bag has a key that is neither a value option nor a flag, constructing
  the options raises \<open>TypeError\<close>, and the message is \<open>Unsupported options:\<close> followed by the
  \<open>repr\<close> of the dict of all the items with such a key: every unrecognized key is an item of
  that dict and its \<open>repr\<close> occurs in the message. If every key is recognized, the
  construction succeeds.
\<close>

theorem unsupported_options_reported:
  "((\<exists>kv \<in> set bag. fst kv \<notin> set (option_keys @ flag_keys)) \<longrightarrow>
      XTracebackOptions_init repr bag =
        Inl (TypeError (''Unsupported options: '' @ repr_dict repr (unsupported bag)))
      \<and> (\<forall>kv \<in> set bag. fst kv \<notin> set (option_keys @ flag_keys) \<longrightarrow>
            kv \<in> set (unsupported bag)
            \<and> sublist (repr (PyStr (fst kv)))
                 (''Unsupported options: '' @ repr_dict repr (unsupported bag))))
   \<and> ((\<forall>kv \<in> set bag. fst kv \<in> set (option_keys @ flag_keys)) \<longrightarrow>
        (\<exists>opts. XTracebackOptions_init repr bag = Inr opts))"
proof (intro conjI impI ballI)
  assume "\<exists>kv \<in> set bag. fst kv \<notin> set (option_keys @ flag_keys)"
  then have "unsupported bag \<noteq> []"
    unfolding unsupported_def filter_empty_conv by blast
  then show "XTracebackOptions_init repr bag =
        Inl (TypeError (''Unsupported options: '' @ repr_dict repr (unsupported bag)))"
    by (rule init_unsupported)
next
  fix kv assume "kv \<in> set bag" and "fst kv \<notin> set (option_keys @ flag_keys)"
  then show "kv \<in> set (unsupported bag)" unfolding unsupported_def by simp
next
  fix kv assume "kv \<in> set bag" and "fst kv \<notin> set (option_keys @ flag_keys)"
  then have "kv \<in> set (unsupported bag)" unfolding unsupported_def by simp
  then have "sublist (repr (PyStr (fst kv))) (repr_dict repr (unsupported bag))"
    by (rule sublist_repr_dict)
  then obtain ps ss where "repr_dict repr (unsupported bag) = ps @ repr (PyStr (fst kv)) @ ss"
    unfolding sublist_def by blast
  then have "''Unsupported options: '' @ repr_dict repr (unsupported bag) =
               (''Unsupported options: '' @ ps) @ repr (PyStr (fst kv)) @ ss"
    by simp
  then show "sublist (repr (PyStr (fst kv)))
                 (''Unsupported options: '' @ repr_dict repr (unsupported bag))"
    unfolding sublist_def by blast
next
  assume "\<forall>kv \<in> set bag. fst kv \<in> set (option_keys @ flag_keys)"
  then have "unsupported bag = []"
    unfolding unsupported_def filter_empty_conv by blast
  then show "\<exists>opts. XTracebackOptions_init repr bag = Inr opts"
    by (rule init_supported)
qed

lemma example_unsupported:
  "unsupported [(''color'', PyBool True), (''colour'', PyBool True), (''limit'', PyInt 3),
                (''widht'', PyInt 100)] = [(''colour'', PyBool True), (''widht'', PyInt 100)]"
  by (simp add: unsupported_def option_keys_def flag_keys_def)

lemma example_supported:
  "unsupported [(''color'', PyBool True), (''limit'', PyInt 3)] = []"
  by (simp add: unsupported_def option_keys_def flag_keys_def)

lemma str_int_100: "str_int 100 = ''100''"
  by (simp add: str_int_def str_nat.simps digit_char_def)

theorem unsupported_options_reported_witness:
  "XTracebackOptions_init example_repr
     [(''color'', PyBool True), (''colour'', PyBool True), (''limit'', PyInt 3),
      (''widht'', PyInt 100)] =
     Inl (TypeError (''Unsupported options: {'' @ [CHR 0x27] @ ''colour'' @ [CHR 0x27] @ '': True, ''
                       @ [CHR 0x27] @ ''widht'' @ [CHR 0x27] @ '': 100}''))
   \<and> sublist ([CHR 0x27] @ ''widht'' @ [CHR 0x27])
        (''Unsupported options: '' @ repr_dict example_repr [(''colour'', PyBool True), (''widht'', PyInt 100)])
   \<and> (\<exists>opts. XTracebackOptions_init example_repr [(''color'', PyBool True), (''limit'', PyInt 3)]
                = Inr opts)"
proof -
  let ?bad = "[(''color'', PyBool True), (''colour'', PyBool True), (''limit'', PyInt 3),
               (''widht'', PyInt 100)]"
  let ?good = "[(''color'', PyBool True), (''limit'', PyInt 3)]"
  have w: "(''widht'', PyInt 100) \<in> set ?bad" by simp
  have wk: "fst (''widht'', PyInt 100) \<notin> set (option_keys @ flag_keys)"
    by (simp add: option_keys_def flag_keys_def)
  have bad: "\<exists>kv \<in> set ?bad. fst kv \<notin> set (option_keys @ flag_keys)"
    using w wk by (rule bexI [rotated])
  have good: "\<forall>kv \<in> set ?good. fst kv \<in> set (option_keys @ flag_keys)"
    by (simp add: option_keys_def flag_keys_def)
  note t1 = unsupported_options_reported [of ?bad example_repr]
  note t2 = unsupported_options_reported [of ?good example_repr]
  have 1: "XTracebackOptions_init example_repr ?bad =
        Inl (TypeError (''Unsupported options: '' @ repr_dict example_repr (unsupported ?bad)))"
    using t1 bad by blast
  have 2: "sublist (example_repr (PyStr (fst (''widht'', PyInt 100))))
                 (''Unsupported options: '' @ repr_dict example_repr (unsupported ?bad))"
    using t1 bad w wk by blast
  have 3: "\<exists>opts. XTracebackOptions_init example_repr ?good = Inr opts"
    using t2 good by blast
  show ?thesis
    using 1 2 3 unfolding example_unsupported
    by (simp add: repr_dict_def str_int_100)
qed

section \<open>Printing without a stream\<close>

lemma priv_highlight_not_RuntimeError:
  "fst (priv_highlight env s x w) \<noteq> Inl (RuntimeError m)"
  by (auto simp: priv_highlight_def run_highlight_def Let_def split: option.splits highlight_outcome.splits)

lemma map_highlight_not_RuntimeError:
  "fst (map_highlight env ls x w) \<noteq> Inl (RuntimeError m)"
proof (induction ls arbitrary: x w)
  case Nil
  then show ?case by simp
next
  case (Cons l ls)
  obtain r x' w' where h: "priv_highlight env l x w = (r, x', w')" by (cases "priv_highlight env l x w")
  show ?case
  proof (cases r)
    case (Inl e)
    then show ?thesis using h priv_highlight_not_RuntimeError [of env l x w m] by simp
  next
    case (Inr s)
    obtain r2 x2 w2 where h2: "map_highlight env ls x' w' = (r2, x2, w2)"
      by (cases "map_highlight env ls x' w'")
    show ?thesis using Inr h h2 Cons.IH [of x' w'] by (cases r2) simp_all
  qed
qed

lemma priv_format_lines_not_RuntimeError:
  "fst (priv_format_lines env ls x w) \<noteq> Inl (RuntimeError m)"
  by (simp add: priv_format_lines_def map_highlight_not_RuntimeError)

lemma priv_str_lines_not_RuntimeError:
  "fst (priv_str_lines env ls x w) \<noteq> Inl (RuntimeError m)"
  by (simp add: priv_str_lines_def Let_def priv_highlight_not_RuntimeError)

lemma priv_print_lines_RuntimeError_iff:
  "(\<exists>m. fst (priv_print_lines env r ls x w) = Inl (RuntimeError m)) \<longleftrightarrow> opt_stream (options x) = PyNone"
proof
  assume "opt_stream (options x) = PyNone"
  then show "\<exists>m. fst (priv_print_lines env r ls x w) = Inl (RuntimeError m)"
    by (simp add: priv_print_lines_def)
next
  assume a: "\<exists>m. fst (priv_print_lines env r ls x w) = Inl (RuntimeError m)"
  then obtain m where m: "fst (priv_print_lines env r ls x w) = Inl (RuntimeError m)" by blast
  show "opt_stream (options x) = PyNone"
  proof (cases "opt_stream (options x)")
    case (PyStream s)
    obtain r1 x1 w1 where h: "priv_str_lines env ls x w = (r1, x1, w1)"
      by (cases "priv_str_lines env ls x w")
    show ?thesis
    proof (cases r1)
      case (Inl e)
      then have "e = RuntimeError m" using m h PyStream by (simp add: priv_print_lines_def)
      then show ?thesis using priv_str_lines_not_RuntimeError [of env ls x w m] h Inl by simp
    next
      case (Inr t)
      then show ?thesis using m h PyStream by (simp add: priv_print_lines_def)
    qed
  qed (use m in \<open>simp_all add: priv_print_lines_def\<close>)
qed

lemma priv_print_lines_unchanged:
  "opt_stream (options x) = PyNone \<Longrightarrow>
     priv_print_lines env r ls x w =
       (Inl (RuntimeError (''Cannot print - '' @ r @ '' has None stream'')), x, w)"
  by (simp add: priv_print_lines_def)

text \<open>
  C8. \<open>print_tb\<close> and \<open>print_exception\<close> raise the \<open>RuntimeError\<close> of \<open>_print_lines\<close> exactly
  when the \<open>stream\<close> option is \<open>None\<close>; they then leave the object and the world (what has
  been written to every stream, the warnings) as they were. \<open>format_tb\<close>,
  \<open>format_exception_only\<close> and \<open>format_exception\<close> never raise it, whatever the stream.
\<close>

theorem no_stream:
  "((\<exists>m. fst (print_tb P env r x w) = Inl (RuntimeError m)) \<longleftrightarrow> opt_stream (options x) = PyNone)
   \<and> ((\<exists>m. fst (print_exception P env r x w) = Inl (RuntimeError m)) \<longleftrightarrow> opt_stream (options x) = PyNone)
   \<and> (opt_stream (options x) = PyNone \<longrightarrow>
        snd (print_tb P env r x w) = (x, w) \<and> snd (print_exception P env r x w) = (x, w))
   \<and> fst (format_tb P env x w) \<noteq> Inl (RuntimeError m)
   \<and> fst (format_exception_only env x w) \<noteq> Inl (RuntimeError m)
   \<and> fst (format_exception P env x w) \<noteq> Inl (RuntimeError m)"
  unfolding print_tb_def print_exception_def format_tb_def format_exception_only_def
    format_exception_def
  using priv_print_lines_RuntimeError_iff priv_print_lines_unchanged priv_format_lines_not_RuntimeError
  by simp


theorem no_stream_witness:
  "opt_stream (options example_xtb) = PyNone
   \<and> (\<exists>m. fst (print_exception example_provider example_env ''<XTraceback>'' example_xtb example_world)
            = Inl (RuntimeError m))
   \<and> snd (print_exception example_provider example_env ''<XTraceback>'' example_xtb example_world)
       = (example_xtb, example_world)
   \<and> opt_stream (options (example_xtb\<lparr>options := default_options\<lparr>opt_stream := PyStream example_stream\<rparr>\<rparr>))
       \<noteq> PyNone
   \<and> (\<nexists>m. fst (print_tb example_provider example_env ''<XTraceback>''
               (example_xtb\<lparr>options := default_options\<lparr>opt_stream := PyStream example_stream\<rparr>\<rparr>)
               example_world) = Inl (RuntimeError m))"
proof -
  have s: "opt_stream (options example_xtb) = PyNone"
    by (simp add: example_xtb_def default_options_def)
  have t: "opt_stream (options (example_xtb\<lparr>options :=
             default_options\<lparr>opt_stream := PyStream example_stream\<rparr>\<rparr>)) \<noteq> PyNone"
    by simp
  show ?thesis
    using no_stream [of example_provider example_env "''<XTraceback>''" example_xtb example_world] s
      no_stream [of example_provider example_env "''<XTraceback>''"
        "example_xtb\<lparr>options := default_options\<lparr>opt_stream := PyStream example_stream\<rparr>\<rparr>"
        example_world] t
    by blast
qed

text \<open>With a stream configured the text is written to it.\<close>

lemma example_print:
  "print_tb example_provider example_env ''<XTraceback>''
     (example_xtb\<lparr>options := default_options\<lparr>opt_stream := PyStream example_stream\<rparr>\<rparr>)
     example_world
   = (Inr (), example_xtb\<lparr>options := default_options\<lparr>opt_stream := PyStream example_stream\<rparr>\<rparr>,
      example_world\<lparr>written := (written example_world)
        (2 := concat (priv_format_tb example_provider example_xtb))\<rparr>)"
  by (simp add: print_tb_def priv_print_lines_def priv_str_lines_def color_def tty_stream_def
        default_options_def example_stream_def example_world_def priv_format_tb_def Let_def)

text \<open>
  On a stream object without \<open>write\<close> the \<open>AttributeError\<close> comes before \<open>_str_lines\<close> runs:
  no warning is issued and the object is unchanged.
\<close>

lemma print_without_write:
  "opt_stream (options x) = PyObject n \<Longrightarrow>
     priv_print_lines env r ls x w = (Inl (AttributeError ''write''), x, w)"
  by (simp add: priv_print_lines_def)

section \<open>Highlighting\<close>

lemma highlight_unavailable:
  "\<not> pygments env \<Longrightarrow>
     priv_highlight env s x w =
       (Inr s, x, warn ''highlighting not available - pygments is required'' w)"
  by (simp add: priv_highlight_def)

lemma map_highlight_unavailable:
  assumes "\<not> pygments env"
  shows "\<exists>w'. map_highlight env ls x w = (Inr ls, x, w') \<and> written w' = written w"
proof (induction ls arbitrary: w)
  case Nil
  then show ?case by simp
next
  case (Cons l ls)
  let ?w1 = "warn ''highlighting not available - pygments is required'' w"
  from Cons.IH [of ?w1] obtain w' where
    "map_highlight env ls x ?w1 = (Inr ls, x, w')" and "written w' = written ?w1" by blast
  then show ?case using assms by (simp add: highlight_unavailable warn_def)
qed

lemma color_set_color [simp]:
  "color (set_color (PyBool b) x) = b"
  by (simp add: color_def set_color_def)

lemma set_color_sel:
  "etype (set_color c x) = etype x"
  "exc_value (set_color c x) = exc_value x"
  "tb_frames (set_color c x) = tb_frames x"
  "number_padding (set_color c x) = number_padding x"
  "opt_stream (options (set_color c x)) = opt_stream (options x)"
  "shorten_filenames (options (set_color c x)) = shorten_filenames (options x)"
  by (simp_all add: set_color_def)

lemma format_filename_set_color:
  "priv_format_filename env (set_color c x) = priv_format_filename env x"
  by (rule ext) (simp add: priv_format_filename_def set_color_sel)

lemma format_filename_env:
  "priv_format_filename (env\<lparr>pygments := a, class_not_found := c, pygments_highlight := h\<rparr>) x =
   priv_format_filename env x"
  by (rule ext) (simp add: priv_format_filename_def Let_def)

lemma set_color_fields:
  "priv_format_tb P (set_color c x) = priv_format_tb P x"
  "priv_format_exception_only env (set_color c x) = priv_format_exception_only env x"
  "priv_format_exception P env (set_color c x) = priv_format_exception P env x"
  unfolding priv_format_tb_def priv_format_exception_only_def priv_format_exception_def
    format_filename_set_color set_color_sel
  by (rule refl)+

lemma format_lines_degraded:
  assumes "\<not> pygments env"
  shows "fst (priv_format_lines env ls (set_color (PyBool True) x) w) = Inr ls"
    and "fst (priv_format_lines env' ls (set_color (PyBool False) x) w') = Inr ls"
proof -
  from map_highlight_unavailable [OF assms, of ls "set_color (PyBool True) x" w]
  show "fst (priv_format_lines env ls (set_color (PyBool True) x) w) = Inr ls"
    by (auto simp: priv_format_lines_def)
  show "fst (priv_format_lines env' ls (set_color (PyBool False) x) w') = Inr ls"
    by (simp add: priv_format_lines_def)
qed

lemma str_lines_degraded:
  assumes "\<not> pygments env"
  shows "priv_str_lines env ls (set_color (PyBool True) x) w =
           (Inr (concat ls), set_color (PyBool True) x,
            warn ''highlighting not available - pygments is required'' w)"
    and "priv_str_lines env' ls (set_color (PyBool False) x) w' =
           (Inr (concat ls), set_color (PyBool False) x, w')"
  using assms by (simp_all add: priv_str_lines_def Let_def highlight_unavailable)

lemma print_lines_degraded:
  assumes "\<not> pygments env"
  shows "fst (priv_print_lines env r ls (set_color (PyBool True) x) w) =
         fst (priv_print_lines env' r ls (set_color (PyBool False) x) w)
       \<and> written (snd (snd (priv_print_lines env r ls (set_color (PyBool True) x) w))) =
         written (snd (snd (priv_print_lines env' r ls (set_color (PyBool False) x) w)))"
  by (cases "opt_stream (options x)")
     (simp_all add: priv_print_lines_def str_lines_degraded [OF assms] warn_def set_color_sel)

text \<open>
  C9. When \<open>pygments\<close> could not be imported, an object with \<open>color\<close> forced on returns from
  every format operation, from \<open>str\<close> and from \<open>print_exception\<close> what the same object with
  \<open>color\<close> forced off returns, the latter in an environment with any Highlighter at all,
  and both write the same text to the stream.
\<close>

theorem highlight_degradation:
  assumes "\<not> pygments env"
  shows "fst (format_tb P env (set_color (PyBool True) x) w) =
           fst (format_tb P (env\<lparr>pygments := a, class_not_found := c, pygments_highlight := h\<rparr>)
                  (set_color (PyBool False) x) w')
       \<and> fst (format_exception_only env (set_color (PyBool True) x) w) =
           fst (format_exception_only (env\<lparr>pygments := a, class_not_found := c, pygments_highlight := h\<rparr>)
                  (set_color (PyBool False) x) w')
       \<and> fst (format_exception P env (set_color (PyBool True) x) w) =
           fst (format_exception P (env\<lparr>pygments := a, class_not_found := c, pygments_highlight := h\<rparr>)
                  (set_color (PyBool False) x) w')
       \<and> fst (str_XTraceback P env (set_color (PyBool True) x) w) =
           fst (str_XTraceback P (env\<lparr>pygments := a, class_not_found := c, pygments_highlight := h\<rparr>)
                  (set_color (PyBool False) x) w')
       \<and> fst (print_exception P env r (set_color (PyBool True) x) w) =
           fst (print_exception P (env\<lparr>pygments := a, class_not_found := c, pygments_highlight := h\<rparr>) r
                  (set_color (PyBool False) x) w)
       \<and> written (snd (snd (print_exception P env r (set_color (PyBool True) x) w))) =
           written (snd (snd (print_exception P
                  (env\<lparr>pygments := a, class_not_found := c, pygments_highlight := h\<rparr>) r
                  (set_color (PyBool False) x) w)))"
proof -
  let ?env' = "env\<lparr>pygments := a, class_not_found := c, pygments_highlight := h\<rparr>"
  have e: "priv_format_exception_only ?env' x = priv_format_exception_only env x"
    unfolding priv_format_exception_only_def format_filename_env by (rule refl)
  have e2: "priv_format_exception P ?env' x = priv_format_exception P env x"
    by (simp add: priv_format_exception_def e)
  show ?thesis
    unfolding format_tb_def format_exception_only_def format_exception_def str_XTraceback_def
      print_exception_def set_color_fields e e2
    using print_lines_degraded [OF assms, of r _ x w ?env']
    by (simp add: format_lines_degraded [OF assms] str_lines_degraded [OF assms])
qed


theorem highlight_degradation_witness:
  "\<not> pygments example_env
   \<and> fst (format_exception example_provider example_env
             (set_color (PyBool True) example_xtb) example_world) =
       fst (format_exception example_provider
             (example_env\<lparr>pygments := True, class_not_found := None,
                           pygments_highlight := pygments_highlight example_env\<rparr>)
             (set_color (PyBool False) example_xtb) example_world)
   \<and> fst (str_XTraceback example_provider example_env
             (set_color (PyBool True) example_xtb) example_world) =
       fst (str_XTraceback example_provider
             (example_env\<lparr>pygments := True, class_not_found := None,
                           pygments_highlight := pygments_highlight example_env\<rparr>)
             (set_color (PyBool False) example_xtb) example_world)"
proof -
  have n: "\<not> pygments example_env" by (simp add: example_env_def)
  show ?thesis
    using n highlight_degradation [OF n, where P = example_provider and x = example_xtb
        and w = example_world and a = True and c = None and h = "pygments_highlight example_env"
        and w' = example_world and r = "''<XTraceback>''"]
    by blast
qed


lemma if_Inr_eq: "(if C then Inl e else Inr R) = Inr opts \<Longrightarrow> opts = R"
  by (simp split: if_splits)

lemma init_stream_color:
  assumes "XTracebackOptions_init repr d = Inr opts"
  shows "opt_stream opts = fst (pop_option ''stream'' PyNone d)
       \<and> opt_color opts = fst (pop_option ''color'' PyNone (snd (pop_option ''stream'' PyNone d)))"
proof -
  note eq = if_Inr_eq [OF assms [unfolded XTracebackOptions_init_def Let_def split_beta]]
  show ?thesis unfolding eq by (simp only: XTracebackOptions.simps)
qed

lemma map_of_filter_other:
  "k \<noteq> k' \<Longrightarrow> map_of (filter (\<lambda>kv. fst kv \<noteq> k') d) k = map_of d k"
  by (induction d) auto

lemma pop_option_unset:
  "map_of d key = None \<or> map_of d key = Some PyNone \<Longrightarrow> fst (pop_option key dflt d) = dflt"
  by (auto simp: pop_option_def pop_def)

text \<open>
  C10. An \<open>XTraceback\<close> constructed from a keyword bag in which \<open>stream\<close> and \<open>color\<close> are
  absent or \<open>None\<close> has \<open>color\<close> false: every format operation and \<open>str\<close> return the
  assembled lines as they are, and neither the object (lexer, formatter) nor the world
  (warnings) changes, so that no highlighting is attempted in any environment.
\<close>

theorem color_unset_without_stream:
  assumes "XTraceback_init P repr et v tbs bag = Inr x"
    and "map_of bag ''stream'' = None \<or> map_of bag ''stream'' = Some PyNone"
    and "map_of bag ''color'' = None \<or> map_of bag ''color'' = Some PyNone"
  shows "\<not> color x
       \<and> format_tb P env x w = (Inr (priv_format_tb P x), x, w)
       \<and> format_exception_only env x w = (Inr (priv_format_exception_only env x), x, w)
       \<and> format_exception P env x w = (Inr (priv_format_exception P env x), x, w)
       \<and> str_XTraceback P env x w = (Inr (concat (priv_format_exception P env x)), x, w)"
proof -
  from assms(1) obtain opts where
    o: "XTracebackOptions_init repr bag = Inr opts" and x: "options x = opts"
    by (auto simp: XTraceback_init_def Let_def split: sum.splits)
  have s: "opt_stream opts = PyNone"
    using init_stream_color [OF o] pop_option_unset [OF assms(2)] by simp
  have "map_of (snd (pop_option ''stream'' PyNone bag)) ''color'' = map_of bag ''color''"
    by (simp add: pop_option_def pop_def map_of_filter_other)
  then have c: "opt_color opts = PyNone"
    using init_stream_color [OF o] assms(3) pop_option_unset [of "snd (pop_option ''stream'' PyNone bag)" "''color''" PyNone]
    by simp
  have nc: "\<not> color x" using s c x by (simp add: color_def tty_stream_def)
  then show ?thesis
    by (simp add: format_tb_def format_exception_only_def format_exception_def str_XTraceback_def
          priv_format_lines_def priv_str_lines_def Let_def)
qed



theorem color_unset_without_stream_witness:
  "XTraceback_init example_provider example_repr example_etype None example_tb [] = Inr example_xtb
   \<and> \<not> color example_xtb
   \<and> format_tb example_provider (example_env\<lparr>pygments := True\<rparr>) example_xtb example_world =
       (Inr (priv_format_tb example_provider example_xtb), example_xtb, example_world)
   \<and> str_XTraceback example_provider (example_env\<lparr>pygments := True\<rparr>) example_xtb example_world =
       (Inr (concat (priv_format_exception example_provider (example_env\<lparr>pygments := True\<rparr>)
                 example_xtb)), example_xtb, example_world)"
proof -
  have s: "map_of ([] :: bag) ''stream'' = None \<or> map_of ([] :: bag) ''stream'' = Some PyNone"
    and c: "map_of ([] :: bag) ''color'' = None \<or> map_of ([] :: bag) ''color'' = Some PyNone"
    by simp_all
  show ?thesis
    using example_init
      color_unset_without_stream [OF example_init s c, of "example_env\<lparr>pygments := True\<rparr>" example_world]
    by blast
qed

section \<open>Formatting a variable\<close>

lemma example_print_width: "print_width example_env example_xtb = Inr 80"
  by (simp add: print_width_def example_xtb_def default_options_def tty_stream_def DEFAULT_WIDTH_def)

text \<open>
  When the slice bound \<open>print_width - base_size - 2 - 3\<close> is not negative, a string longer
  than twice the print width is cut to \<open>print_width - base_size - 2\<close> characters, the last
  three of them the ellipsis.
\<close>

lemma truncation_within_budget:
  assumes "int (length s) > pw * 2" and "0 \<le> pw - base_size - 2 - 3" and "0 \<le> base_size"
  shows "\<exists>t. truncate_value pw base_size (PyStr s) = PyStr (t @ ''...'')
             \<and> int (length (t @ ''...'')) = pw - base_size - 2"
proof -
  have "nat (pw - base_size - 2 - 3) \<le> length s" using assms by linarith
  then have "int (length (take (nat (pw - base_size - 2 - 3)) s)) = pw - base_size - 2 - 3"
    using assms(2) by simp
  then show ?thesis using assms by (simp add: truncate_value_def slice_to_def)
qed

lemma example_env_pformat: "pformat example_env = example_pformat"
  by (simp add: example_env_def)

text \<open>
  C2 at a key of 85 characters, with the default print width of 80, indent 4, no prefix and
  the separator \<open>" = "\<close>: \<open>base_size\<close> is 92, the slice bound \<open>80 - 92 - 2 - 3\<close> is
  \<open>-17\<close>, and \<open>value[:-17]\<close> drops only the last 17 of the 200 characters. The value
  rendered has 186 characters before quoting; it does end in the ellipsis.
\<close>

theorem long_key_truncation:
  "print_width example_env example_xtb = Inr 80
   \<and> truncate_value 80
         (4 + int (length ('''' :: string)) + int (length (replicate 85 CHR ''k'')) + int (length '' = ''))
         (PyStr (replicate 200 CHR ''a''))
       = PyStr (replicate 183 CHR ''a'' @ ''...'')
   \<and> priv_format_variable example_env example_xtb (replicate 85 CHR ''k'')
         (PyStr (replicate 200 CHR ''a'')) 4 [] '' = ''
       = Inr (replicate 4 CHR '' '' @ replicate 85 CHR ''k'' @ '' = '' @
              [CHR 0x27] @ replicate 183 CHR ''a'' @ ''...'' @ [CHR 0x27])
   \<and> length (replicate 183 CHR ''a'' @ ''...'') = 186"
  by (simp add: example_print_width priv_format_variable_def truncate_value_def slice_to_def
        pformat_value_def example_env_pformat Let_def)


text \<open>What the ioctl raises on a terminal stream, \<open>_format_variable\<close> raises.\<close>

lemma format_variable_ioctl_error:
  assumes "opt_print_width (options x) = PyNone" and "fcntl env"
    and "opt_stream (options x) = PyStream s" and "has_isatty s" and "isatty s"
    and "tiocgwinsz env s = Inl e"
  shows "priv_format_variable env x key v indent pre separator = Inl e"
  using assms by (simp add: priv_format_variable_def print_width_def tty_stream_def)















text \<open>A list that \<open>pformat\<close> prints on several lines keeps every item, one per line.\<close>

lemma rewrap_example_long:
  "priv_format_variable example_env example_xtb ''names''
     (PyList [PyStr ''alpha-alpha-alpha-alpha-alpha'', PyStr ''beta-beta-beta-beta-beta-beta'',
              PyStr ''gamma-gamma-gamma-gamma-gamma'']) 4 [] '' = '' =
   Inr (''    names = ['' @
        [CHR 0x0A] @ ''        '' @ [CHR 0x27] @ ''alpha-alpha-alpha-alpha-alpha'' @ [CHR 0x27] @ '','' @
        [CHR 0x0A] @ ''        '' @ [CHR 0x27] @ ''beta-beta-beta-beta-beta-beta'' @ [CHR 0x27] @ '','' @
        [CHR 0x0A] @ ''        '' @ [CHR 0x27] @ ''gamma-gamma-gamma-gamma-gamma'' @ [CHR 0x27] @ '','' @
        [CHR 0x0A] @ ''        ]'')"
  by code_simp

section \<open>File names\<close>

text \<open>
  C7, as the code has it. \<open>_format_filename\<close> resolves its argument again on every call, so
  applying it to its own output returns that output only under conditions on the
  filesystem at the path \<open>f\<close>: \<open>realpath\<close> is idempotent there; when the real path is not
  under the standard library, the relative path resolves back to the real path; when it
  is, the tagged output, resolved against the working directory, is not under the standard
  library and has the tagged output as its strictly shorter relative path. (With
  \<open>shorten_filenames\<close> off the function is the identity.)
\<close>

theorem format_filename_idempotent:
  assumes L1: "realpath env (realpath env f) = realpath env f"
    and L2: "\<not> prefix (stdlib_path env) (realpath env f) \<Longrightarrow>
               \<forall>rel. relpath env = Some rel \<longrightarrow> realpath env (rel (realpath env f)) = realpath env f"
    and SC: "prefix (stdlib_path env) (realpath env f) \<Longrightarrow>
               \<not> prefix (stdlib_path env)
                    (realpath env (replace (stdlib_path env) ''<stdlib>'' (realpath env f)))"
    and L3: "prefix (stdlib_path env) (realpath env f) \<Longrightarrow>
               \<exists>rel. relpath env = Some rel
                 \<and> rel (realpath env (replace (stdlib_path env) ''<stdlib>'' (realpath env f)))
                     = replace (stdlib_path env) ''<stdlib>'' (realpath env f)
                 \<and> length (replace (stdlib_path env) ''<stdlib>'' (realpath env f))
                     < length (realpath env (replace (stdlib_path env) ''<stdlib>'' (realpath env f)))"
  shows "priv_format_filename env x (priv_format_filename env x f) = priv_format_filename env x f"
proof (cases "shorten_filenames (options x)")
  case False
  then show ?thesis by (simp add: priv_format_filename_def)
next
  case sh: True
  let ?S = "stdlib_path env"
  let ?r = "realpath env f"
  show ?thesis
  proof (cases "prefix ?S ?r")
    case True
    let ?out = "replace ?S ''<stdlib>'' ?r"
    have o: "priv_format_filename env x f = ?out"
      using sh True by (simp add: priv_format_filename_def)
    from L3 [OF True] obtain rel where
      rel: "relpath env = Some rel" "rel (realpath env ?out) = ?out"
           "length ?out < length (realpath env ?out)" by blast
    show ?thesis unfolding o
      using sh SC [OF True] rel by (simp add: priv_format_filename_def)
  next
    case False
    show ?thesis
    proof (cases "relpath env")
      case None
      then have o: "priv_format_filename env x f = ?r"
        using sh False by (simp add: priv_format_filename_def)
      show ?thesis unfolding o using sh False None L1 by (simp add: priv_format_filename_def)
    next
      case (Some rel)
      show ?thesis
      proof (cases "length (rel ?r) < length ?r")
        case True
        then have o: "priv_format_filename env x f = rel ?r"
          using sh False Some by (simp add: priv_format_filename_def)
        have "realpath env (rel ?r) = ?r" using L2 [OF False] Some by blast
        then show ?thesis unfolding o
          using sh False Some True by (simp add: priv_format_filename_def)
      next
        case nl: False
        then have o: "priv_format_filename env x f = ?r"
          using sh False Some by (simp add: priv_format_filename_def)
        show ?thesis unfolding o
          using sh False Some nl L1 by (simp add: priv_format_filename_def)
      qed
    qed
  qed
qed

lemma example_stdlib_file:
  "realpath example_env ''/usr/lib/python2.7/os.py'' = ''/usr/lib/python2.7/os.py''"
  "replace (stdlib_path example_env) ''<stdlib>'' ''/usr/lib/python2.7/os.py'' = ''<stdlib>/os.py''"
  "realpath example_env ''<stdlib>/os.py'' = ''/home/user/project/<stdlib>/os.py''"
  "posix_relpath ''/home/user/project'' ''/home/user/project/<stdlib>/os.py'' = ''<stdlib>/os.py''"
  "prefix (stdlib_path example_env) ''/usr/lib/python2.7/os.py''"
  "\<not> prefix (stdlib_path example_env) ''/home/user/project/<stdlib>/os.py''"
  by code_simp+

lemma example_env_relpath: "relpath example_env = Some (posix_relpath ''/home/user/project'')"
  by (simp add: example_env_def)

lemma example_project_file:
  "realpath example_env ''src/app.py'' = ''/home/user/project/src/app.py''"
  "realpath example_env ''/home/user/project/src/app.py'' = ''/home/user/project/src/app.py''"
  "posix_relpath ''/home/user/project'' ''/home/user/project/src/app.py'' = ''src/app.py''"
  "\<not> prefix (stdlib_path example_env) ''/home/user/project/src/app.py''"
  by code_simp+

theorem format_filename_idempotent_witness:
  "priv_format_filename example_env example_xtb ''/usr/lib/python2.7/os.py'' = ''<stdlib>/os.py''
   \<and> priv_format_filename example_env example_xtb ''<stdlib>/os.py'' = ''<stdlib>/os.py''
   \<and> priv_format_filename example_env example_xtb ''src/app.py'' = ''src/app.py''
   \<and> priv_format_filename example_env example_xtb
         (priv_format_filename example_env example_xtb ''src/app.py'') = ''src/app.py''"
proof -
  have sh: "shorten_filenames (options example_xtb)"
    by (simp add: example_xtb_def default_options_def)
  have a: "priv_format_filename example_env example_xtb ''/usr/lib/python2.7/os.py'' = ''<stdlib>/os.py''"
    by (simp add: priv_format_filename_def sh example_stdlib_file example_env_relpath)
  have "priv_format_filename example_env example_xtb
          (priv_format_filename example_env example_xtb ''/usr/lib/python2.7/os.py'') =
        priv_format_filename example_env example_xtb ''/usr/lib/python2.7/os.py''"
    by (rule format_filename_idempotent) (simp_all add: example_stdlib_file example_env_relpath)
  then have a2: "priv_format_filename example_env example_xtb ''<stdlib>/os.py'' = ''<stdlib>/os.py''"
    unfolding a .
  have b: "priv_format_filename example_env example_xtb ''src/app.py'' = ''src/app.py''"
    by (simp add: priv_format_filename_def sh example_project_file example_env_relpath)
  have "priv_format_filename example_env example_xtb
          (priv_format_filename example_env example_xtb ''src/app.py'') =
        priv_format_filename example_env example_xtb ''src/app.py''"
    by (rule format_filename_idempotent) (simp_all add: example_project_file example_env_relpath)
  then show ?thesis using a a2 b by simp
qed

lemma site_packages_file:
  "realpath site_packages_env ''/usr/lib/python2.7/os.py'' = ''/usr/lib/python2.7/os.py''"
  "stdlib_path site_packages_env = ''/usr/lib/python2.7''"
  "replace ''/usr/lib/python2.7'' ''<stdlib>'' ''/usr/lib/python2.7/os.py'' = ''<stdlib>/os.py''"
  "realpath site_packages_env ''<stdlib>/os.py'' = ''/usr/lib/python2.7/site-packages/<stdlib>/os.py''"
  "replace ''/usr/lib/python2.7'' ''<stdlib>'' ''/usr/lib/python2.7/site-packages/<stdlib>/os.py''
     = ''<stdlib>/site-packages/<stdlib>/os.py''"
  "prefix ''/usr/lib/python2.7'' ''/usr/lib/python2.7/os.py''"
  "prefix ''/usr/lib/python2.7'' ''/usr/lib/python2.7/site-packages/<stdlib>/os.py''"
  by code_simp+

text \<open>
  C7 as the specification states it fails when the working directory is under the
  standard library: \<open>/usr/lib/python2.7/os.py\<close> becomes \<open><stdlib>/os.py\<close>, which resolves to
  \<open>/usr/lib/python2.7/site-packages/<stdlib>/os.py\<close> and is tagged again.
\<close>

theorem format_filename_idempotent_counterexample:
  "priv_format_filename site_packages_env example_xtb
     (priv_format_filename site_packages_env example_xtb ''/usr/lib/python2.7/os.py'')
   \<noteq> priv_format_filename site_packages_env example_xtb ''/usr/lib/python2.7/os.py''"
proof -
  have sh: "shorten_filenames (options example_xtb)"
    by (simp add: example_xtb_def default_options_def)
  have 1: "priv_format_filename site_packages_env example_xtb ''/usr/lib/python2.7/os.py''
             = ''<stdlib>/os.py''"
    by (simp add: priv_format_filename_def sh site_packages_file)
  have 2: "priv_format_filename site_packages_env example_xtb ''<stdlib>/os.py''
             = ''<stdlib>/site-packages/<stdlib>/os.py''"
    by (simp add: priv_format_filename_def sh site_packages_file)
  show ?thesis unfolding 1 2 by simp
qed

section \<open>The header of the traceback\<close>

lemma splitlines_from_newline:
  "splitlines_from cur (CHR 0x0A # b) = rev cur # splitlines_from [] b"
  by (cases b) simp_all

lemma splitlines_from_append:
  "splitlines_from cur (a @ CHR 0x0A # b) =
     splitlines_from cur (a @ [CHR 0x0A]) @ splitlines_from [] b"
proof (induction cur a rule: splitlines_from.induct)
  case (1 cur)
  then show ?case by (simp add: splitlines_from_newline)
next
  case (2 cur c)
  then show ?case by (simp add: splitlines_from_newline)
next
  case (3 cur c d cs)
  then show ?case by (cases cs) auto
qed

lemma splitlines_append:
  "splitlines ((a @ [CHR 0x0A]) @ b) = splitlines (a @ [CHR 0x0A]) @ splitlines b"
  unfolding splitlines_def using splitlines_from_append [of "[]" a b] by simp

lemma splitlines_concat:
  assumes "newline_ended xs"
  shows "splitlines (concat (xs @ ys)) = splitlines (concat xs) @ splitlines (concat ys)"
  using assms
proof (induction xs)
  case Nil
  then show ?case by (simp add: splitlines_def)
next
  case (Cons x xs)
  then have "x \<noteq> [] \<and> last x = CHR 0x0A" unfolding newline_ended_def by simp
  then have "x = butlast x @ [CHR 0x0A]" using append_butlast_last_id [of x] by simp
  then obtain a where x: "x = a @ [CHR 0x0A]" by blast
  have True by simp
  have ne: "newline_ended xs" using Cons.prems by (simp add: newline_ended_def)
  have 1: "splitlines (concat ((x # xs) @ ys)) =
             splitlines (a @ [CHR 0x0A]) @ splitlines (concat (xs @ ys))"
    using splitlines_append [of a "concat (xs @ ys)"] by (simp add: x)
  have 2: "splitlines (concat (x # xs)) = splitlines (a @ [CHR 0x0A]) @ splitlines (concat xs)"
    using splitlines_append [of a "concat xs"] by (simp add: x)
  show ?case unfolding 1 2 Cons.IH [OF ne] by simp
qed

lemma format_tb_newline_ended: "newline_ended (priv_format_tb P x)"
  by (simp add: newline_ended_def priv_format_tb_def list_all_iff)

lemma splitlines_header: "splitlines header = [header_line]"
  by code_simp

text \<open>
  The text lines of the assembled output: the header when there are frames, the lines of
  the frames, the lines of the exception.
\<close>

lemma format_exception_lines:
  "splitlines (concat (priv_format_exception P env x)) =
     (if tb_frames x = [] then [] else [header_line])
     @ splitlines (concat (priv_format_tb P x))
     @ splitlines (concat (priv_format_exception_only env x))"
proof (cases "tb_frames x = []")
  case True
  then show ?thesis
    by (simp add: priv_format_exception_def priv_format_tb_def Let_def splitlines_def)
next
  case False
  then have ne: "priv_format_tb P x \<noteq> []" by (simp add: priv_format_tb_def)
  have h: "newline_ended (header # priv_format_tb P x)"
    using format_tb_newline_ended [of P x] by (simp add: newline_ended_def header_def)
  have "splitlines (concat (priv_format_exception P env x)) =
          splitlines (concat ((header # priv_format_tb P x) @ priv_format_exception_only env x))"
    using ne by (simp add: priv_format_exception_def Let_def)
  also have "\<dots> = splitlines (concat (header # priv_format_tb P x))
                  @ splitlines (concat (priv_format_exception_only env x))"
    by (rule splitlines_concat [OF h])
  also have "splitlines (concat (header # priv_format_tb P x)) =
               splitlines header @ splitlines (concat (priv_format_tb P x))"
    using splitlines_append [of header_line "concat (priv_format_tb P x)"]
    by (simp add: header_def)
  finally show ?thesis using False by (simp add: splitlines_header)
qed

text \<open>
  C4, as the code has it. The assembler adds the header exactly when a frame is included,
  in front of everything else, and looks at no text. Without an included frame the output
  is the lines of the Exception Renderer alone. With an included frame the output is the
  header, the rendered frames and the lines of the Exception Renderer, and the header is
  its first line. In both cases the number of header lines in the output is the one the
  assembler adds, if it adds one, plus those that the rendered frames and the lines of the
  Exception Renderer contain themselves: none without frames, and exactly one with frames,
  when these texts contain none.
\<close>

theorem traceback_header:
  "(tb_frames x = [] \<longrightarrow>
      priv_format_exception P env x = priv_format_exception_only env x)
   \<and> (tb_frames x \<noteq> [] \<longrightarrow>
        priv_format_exception P env x =
          header # priv_format_tb P x @ priv_format_exception_only env x
        \<and> hd (priv_format_exception P env x) = header
        \<and> hd (splitlines (concat (priv_format_exception P env x))) = header_line)
   \<and> count_list (splitlines (concat (priv_format_exception P env x))) header_line =
       (if tb_frames x = [] then 0 else 1)
       + count_list (splitlines (concat (priv_format_tb P x))) header_line
       + count_list (splitlines (concat (priv_format_exception_only env x))) header_line
   \<and> (tb_frames x = []
        \<and> header_line \<notin> set (splitlines (concat (priv_format_exception_only env x))) \<longrightarrow>
        header_line \<notin> set (splitlines (concat (priv_format_exception P env x))))
   \<and> (tb_frames x \<noteq> []
        \<and> header_line \<notin> set (splitlines (concat (priv_format_tb P x)))
        \<and> header_line \<notin> set (splitlines (concat (priv_format_exception_only env x))) \<longrightarrow>
        count_list (splitlines (concat (priv_format_exception P env x))) header_line = 1)"
proof (intro conjI impI)
  assume e: "tb_frames x = []"
  show "priv_format_exception P env x = priv_format_exception_only env x"
    using e by (simp add: priv_format_exception_def priv_format_tb_def Let_def)
next
  assume n: "tb_frames x \<noteq> []"
  show f: "priv_format_exception P env x =
          header # priv_format_tb P x @ priv_format_exception_only env x"
    using n by (simp add: priv_format_exception_def priv_format_tb_def Let_def)
  show "hd (priv_format_exception P env x) = header"
    unfolding f by simp
  show "hd (splitlines (concat (priv_format_exception P env x))) = header_line"
    using n unfolding format_exception_lines by simp
next
  show "count_list (splitlines (concat (priv_format_exception P env x))) header_line =
       (if tb_frames x = [] then 0 else 1)
       + count_list (splitlines (concat (priv_format_tb P x))) header_line
       + count_list (splitlines (concat (priv_format_exception_only env x))) header_line"
    unfolding format_exception_lines by simp
next
  assume "tb_frames x = []
        \<and> header_line \<notin> set (splitlines (concat (priv_format_exception_only env x)))"
  then show "header_line \<notin> set (splitlines (concat (priv_format_exception P env x)))"
    unfolding format_exception_lines by (simp add: priv_format_tb_def splitlines_def)
next
  assume "tb_frames x \<noteq> []
        \<and> header_line \<notin> set (splitlines (concat (priv_format_tb P x)))
        \<and> header_line \<notin> set (splitlines (concat (priv_format_exception_only env x)))"
  then show "count_list (splitlines (concat (priv_format_exception P env x))) header_line = 1"
    unfolding format_exception_lines by (simp add: count_list_0_iff)
qed

lemma example_frames_text:
  "tb_frames example_xtb \<noteq> []"
  "count_list (splitlines (concat (priv_format_tb example_provider example_xtb))) header_line = 0"
  "count_list (splitlines (concat (priv_format_exception_only example_env example_xtb)))
     header_line = 0"
  by code_simp+

lemma frameless_text:
  "tb_frames frameless_xtb = []"
  "priv_format_exception_only example_env frameless_xtb = [''ValueError'' @ [CHR 0x0A]]"
  "count_list (splitlines (concat (priv_format_tb example_provider frameless_xtb))) header_line = 0"
  "count_list (splitlines (concat (priv_format_exception_only example_env frameless_xtb)))
     header_line = 0"
  by code_simp+

lemma quoting_text:
  "tb_frames quoting_xtb \<noteq> []"
  "count_list (splitlines (concat (priv_format_tb example_provider quoting_xtb))) header_line = 0"
  "count_list (splitlines (concat (priv_format_exception_only example_env quoting_xtb)))
     header_line = 1"
  by code_simp+

theorem traceback_header_witness:
  "tb_frames example_xtb \<noteq> []
   \<and> hd (priv_format_exception example_provider example_env example_xtb) = header
   \<and> hd (splitlines (concat (priv_format_exception example_provider example_env example_xtb)))
       = header_line
   \<and> count_list (splitlines (concat (priv_format_exception example_provider example_env example_xtb)))
         header_line = 1
   \<and> tb_frames frameless_xtb = []
   \<and> priv_format_exception example_provider example_env frameless_xtb = [''ValueError'' @ [CHR 0x0A]]
   \<and> count_list (splitlines (concat (priv_format_exception example_provider example_env frameless_xtb)))
         header_line = 0
   \<and> tb_frames quoting_xtb \<noteq> []
   \<and> hd (splitlines (concat (priv_format_exception example_provider example_env quoting_xtb)))
       = header_line
   \<and> count_list (splitlines (concat (priv_format_exception example_provider example_env quoting_xtb)))
         header_line = 2"
proof -
  note a = traceback_header [of example_xtb example_provider example_env]
  note b = traceback_header [of frameless_xtb example_provider example_env]
  note c = traceback_header [of quoting_xtb example_provider example_env]
  have a1: "hd (priv_format_exception example_provider example_env example_xtb) = header"
    and a2: "hd (splitlines (concat (priv_format_exception example_provider example_env example_xtb)))
              = header_line"
    using a example_frames_text(1) by blast+
  have a3: "count_list (splitlines (concat
              (priv_format_exception example_provider example_env example_xtb))) header_line = 1"
    using a [THEN conjunct2, THEN conjunct2, THEN conjunct1] example_frames_text by simp
  have b1: "priv_format_exception example_provider example_env frameless_xtb =
              priv_format_exception_only example_env frameless_xtb"
    using b frameless_text(1) by blast
  have b3: "count_list (splitlines (concat
              (priv_format_exception example_provider example_env frameless_xtb))) header_line = 0"
    using b [THEN conjunct2, THEN conjunct2, THEN conjunct1] frameless_text(1,3,4) by simp
  have c2: "hd (splitlines (concat (priv_format_exception example_provider example_env quoting_xtb)))
              = header_line"
    using c quoting_text(1) by blast
  have c3: "count_list (splitlines (concat
              (priv_format_exception example_provider example_env quoting_xtb))) header_line = 2"
    using c [THEN conjunct2, THEN conjunct2, THEN conjunct1] quoting_text by simp
  show ?thesis
    using example_frames_text(1) a1 a2 a3 frameless_text(1) b1 [unfolded frameless_text(2)] b3
      quoting_text(1) c2 c3
    by (intro conjI)
qed

text \<open>
  C4 as the specification states it fails for an exception without frames whose message
  quotes a traceback: the header line is a line of the output.
\<close>

theorem traceback_header_counterexample:
  "tb_frames remote_error_xtb = []
   \<and> priv_format_exception example_provider example_env remote_error_xtb =
       [''ValueError: worker failed'' @ [CHR 0x0A] @ ''Traceback (most recent call last):'' @ [CHR 0x0A]]
   \<and> header_line \<in> set (splitlines (concat
         (priv_format_exception example_provider example_env remote_error_xtb)))"
  by code_simp

end
